theory Spec2Isabelle
  imports Main "HOL-Library.Word" "HOL-Library.Signed_Division"
begin

unbundle bit_operations_syntax

section \<open>Data model (mp4\_recorder.h)\<close>

type_synonym byte = "8 word"

text \<open>
  \<^verbatim>\<open>struct FrameInfo\<close>. The field \<^verbatim>\<open>size\<close> is called \<open>size_f\<close> here, because
  \<open>size\<close> is a constant of HOL. The signed fields \<^verbatim>\<open>pts\<close> and \<^verbatim>\<open>dts\<close>
  (\<^verbatim>\<open>int64_t\<close>) are 64-bit words read in two's complement.
\<close>

record FrameInfo =
  offset :: "64 word"
  size_f :: "32 word"
  pts :: "64 word"
  dts :: "64 word"
  is_keyframe :: "8 word"
  track_id :: "8 word"

text \<open>\<^verbatim>\<open>struct RecorderConfig\<close>, with its default member initialisers.\<close>

record RecorderConfig =
  video_timescale :: "32 word"
  audio_timescale :: "32 word"
  audio_sample_rate :: "32 word"
  audio_channels :: "16 word"
  flush_interval_ms :: "32 word"
  flush_frame_count :: "32 word"
  video_width :: "32 word"
  video_height :: "32 word"

definition default_config :: RecorderConfig where
  "default_config =
     \<lparr>video_timescale = 30000, audio_timescale = 48000, audio_sample_rate = 48000,
      audio_channels = 2, flush_interval_ms = 500, flush_frame_count = 1000,
      video_width = 640, video_height = 480\<rparr>"

text \<open>
  Every \<^verbatim>\<open>return false\<close> of the library is a value of this type; the constructor
  records which return it was (the source only logs the difference). The last three are
  not returns: they stand for undefined behaviour of the C++ (an integer division by
  zero, a read through a null pointer or past the end of a buffer, a method called
  through a null \<^verbatim>\<open>unique_ptr\<close>).
\<close>

datatype error =
    AlreadyRecording
  | NotRecording
  | EmptyTrack
  | OffsetOverflow
  | IoOpen
  | IoWrite
  | IoFlush
  | IoSeek
  | IoSize
  | IndexNotOpen
  | BadMagic
  | BadConfig
  | FileTooSmall
  | MdatTooBig
  | InvalidArgument
  | DivideByZero
  | InvalidRead
  | NullHandle

section \<open>Byte writers (moov\_builder.cpp)\<close>

text \<open>
  The writers of the source append to a \<^verbatim>\<open>std::vector<uint8_t>&\<close>; here they take
  the vector last and return it extended, so that a sequence of calls is a list of
  writers run from left to right by \<open>emit\<close>.
\<close>

definition writeUint8 :: "byte \<Rightarrow> byte list \<Rightarrow> byte list" where
  "writeUint8 v data = data @ [v]"

definition writeUint16BE :: "16 word \<Rightarrow> byte list \<Rightarrow> byte list" where
  "writeUint16BE v data =
     data @ [ucast (drop_bit 8 v AND 0xFF), ucast (v AND 0xFF)]"

definition writeUint32BE :: "32 word \<Rightarrow> byte list \<Rightarrow> byte list" where
  "writeUint32BE v data =
     data @ [ucast (drop_bit 24 v AND 0xFF), ucast (drop_bit 16 v AND 0xFF),
             ucast (drop_bit 8 v AND 0xFF), ucast (v AND 0xFF)]"

definition writeAtomHeader :: "string \<Rightarrow> 32 word \<Rightarrow> byte list \<Rightarrow> byte list" where
  "writeAtomHeader type sz data =
     fold (\<lambda>i. writeUint8 (of_char (type ! i))) [0..<4] (writeUint32BE sz data)"

definition insert_end :: "byte list \<Rightarrow> byte list \<Rightarrow> byte list" where
  "insert_end src data = data @ src"

definition emit :: "(byte list \<Rightarrow> byte list) list \<Rightarrow> byte list \<Rightarrow> byte list" where
  "emit ws data = fold (\<lambda>w d. w d) ws data"

definition writeDescriptorLength :: "32 word \<Rightarrow> byte list \<Rightarrow> byte list" where
  "writeDescriptorLength len data =
     (let v = len AND 0x0FFFFFFF;
          bytes = [ucast (drop_bit 21 v AND 0x7F), ucast (drop_bit 14 v AND 0x7F),
                   ucast (drop_bit 7 v AND 0x7F), ucast (v AND 0x7F)] :: byte list;
          first = length (takeWhile (\<lambda>b. b = 0) (take 3 bytes))
      in data @ map (\<lambda>i. if i < 3 then bytes ! i OR 0x80 else bytes ! i) [first..<4])"

definition getSampleRateIndex :: "32 word \<Rightarrow> byte" where
  "getSampleRateIndex sample_rate =
     (if sample_rate = 96000 then 0
      else if sample_rate = 88200 then 1
      else if sample_rate = 64000 then 2
      else if sample_rate = 48000 then 3
      else if sample_rate = 44100 then 4
      else if sample_rate = 32000 then 5
      else if sample_rate = 24000 then 6
      else if sample_rate = 22050 then 7
      else if sample_rate = 16000 then 8
      else if sample_rate = 12000 then 9
      else if sample_rate = 11025 then 10
      else if sample_rate = 8000 then 11
      else if sample_rate = 7350 then 12
      else 3)"

section \<open>Sample tables (moov\_builder.cpp)\<close>

subsection \<open>stts\<close>

text \<open>
  \<^verbatim>\<open>MoovBuilder::buildStts\<close>. The default duration handed in by the caller is
  replaced by the last PTS delta as soon as the track has two samples. A duration is a
  \<^verbatim>\<open>uint32_t\<close> initialised from an \<^verbatim>\<open>int64_t\<close> difference, hence the
  \<open>ucast\<close>. The loop state is (entries, current duration, current count).
\<close>

definition stts_last_default :: "FrameInfo list \<Rightarrow> 32 word \<Rightarrow> 32 word" where
  "stts_last_default frames default_duration =
     (if 2 \<le> length frames
      then ucast (pts (frames ! (length frames - 1)) - pts (frames ! (length frames - 2)))
      else default_duration)"

definition stts_duration :: "FrameInfo list \<Rightarrow> 32 word \<Rightarrow> nat \<Rightarrow> 32 word" where
  "stts_duration frames default_duration i =
     (if i + 1 < length frames
      then ucast (pts (frames ! (i + 1)) - pts (frames ! i))
      else default_duration)"

definition stts_step ::
  "32 word \<Rightarrow> (32 word \<times> 32 word) list \<times> 32 word \<times> 32 word
     \<Rightarrow> (32 word \<times> 32 word) list \<times> 32 word \<times> 32 word" where
  "stts_step duration st =
     (case st of (entries, current_duration, current_count) \<Rightarrow>
        if duration = current_duration \<or> current_count = 0
        then (entries, duration, current_count + 1)
        else (entries @ [(current_count, current_duration)], duration, 1))"

definition stts_entries :: "FrameInfo list \<Rightarrow> 32 word \<Rightarrow> (32 word \<times> 32 word) list" where
  "stts_entries frames default_duration =
     (let dd = stts_last_default frames default_duration in
      case fold (\<lambda>i. stts_step (stts_duration frames dd i)) [0..<length frames] ([], 0, 0)
      of (entries, current_duration, current_count) \<Rightarrow>
        if current_count > 0 then entries @ [(current_count, current_duration)] else entries)"

definition buildStts :: "FrameInfo list \<Rightarrow> 32 word \<Rightarrow> error + byte list" where
  "buildStts frames default_duration =
     (if frames = [] then Inl EmptyTrack
      else
        let stts_entries = stts_entries frames default_duration;
            stts_size = of_nat (8 + 8 + length stts_entries * 8)
        in Inr (emit
             ([writeAtomHeader ''stts'' stts_size,
               writeUint32BE 0,
               writeUint32BE (of_nat (length stts_entries))]
              @ concat (map (\<lambda>entry. [writeUint32BE (fst entry), writeUint32BE (snd entry)])
                         stts_entries)) []))"

subsection \<open>stss, stsz, stsc\<close>

definition buildStss :: "FrameInfo list \<Rightarrow> error + byte list" where
  "buildStss frames =
     (let keyframe_indices =
            map (\<lambda>i. of_nat (i + 1) :: 32 word)
              (filter (\<lambda>i. is_keyframe (frames ! i) \<noteq> 0) [0..<length frames]);
          stss_size = of_nat (8 + 8 + length keyframe_indices * 4)
      in Inr (emit
           ([writeAtomHeader ''stss'' stss_size,
             writeUint32BE 0,
             writeUint32BE (of_nat (length keyframe_indices))]
            @ map writeUint32BE keyframe_indices) []))"

definition buildStsz :: "FrameInfo list \<Rightarrow> error + byte list" where
  "buildStsz frames =
     (if frames = [] then Inl EmptyTrack
      else
        let stsz_size = of_nat (8 + 8 + 4 + length frames * 4)
        in Inr (emit
             ([writeAtomHeader ''stsz'' stsz_size,
               writeUint32BE 0,
               writeUint32BE 0,
               writeUint32BE (of_nat (length frames))]
              @ map (\<lambda>frame. writeUint32BE (size_f frame)) frames) []))"

definition buildStsc :: "FrameInfo list \<Rightarrow> error + byte list" where
  "buildStsc frames =
     (if frames = [] then Inl EmptyTrack
      else Inr (emit
             [writeAtomHeader ''stsc'' (8 + 8 + 12),
              writeUint32BE 0,
              writeUint32BE 1,
              writeUint32BE 1,
              writeUint32BE 1,
              writeUint32BE 1] []))"

subsection \<open>stco\<close>

text \<open>
  \<^verbatim>\<open>MoovBuilder::buildStco\<close>. The sum \<^verbatim>\<open>mdat_start + frame.offset\<close> is a
  \<^verbatim>\<open>uint64_t\<close> sum (it wraps at \<open>2^64\<close>); the loop returns at the first entry
  above \<^verbatim>\<open>0xFFFFFFFF\<close>.
\<close>

fun stco_loop :: "FrameInfo list \<Rightarrow> 64 word \<Rightarrow> byte list \<Rightarrow> error + byte list" where
  "stco_loop [] mdat_start data = Inr data"
| "stco_loop (frame # rest) mdat_start data =
     (let chunk_offset_64 = mdat_start + offset frame in
      if chunk_offset_64 > 0xFFFFFFFF then Inl OffsetOverflow
      else stco_loop rest mdat_start (writeUint32BE (ucast chunk_offset_64) data))"

definition buildStco :: "FrameInfo list \<Rightarrow> 64 word \<Rightarrow> error + byte list" where
  "buildStco frames mdat_start =
     (if frames = [] then Inl EmptyTrack
      else
        let stco_size = of_nat (8 + 8 + length frames * 4)
        in stco_loop frames mdat_start
             (emit [writeAtomHeader ''stco'' stco_size,
                    writeUint32BE 0,
                    writeUint32BE (of_nat (length frames))] []))"

subsection \<open>stsd\<close>

text \<open>
  A pointer with its length (\<^verbatim>\<open>const uint8_t* h264_sps, uint32_t h264_sps_size\<close>) is
  one optional byte list: \<open>None\<close> is the null pointer. The start code is stripped by
  the same lines for the SPS and for the PPS in the source.
\<close>

definition strip_start_code :: "byte list \<Rightarrow> byte list" where
  "strip_start_code bs =
     (if length bs \<ge> 4 \<and> bs ! 0 = 0x00 \<and> bs ! 1 = 0x00 \<and> bs ! 2 = 0x00 \<and> bs ! 3 = 0x01
      then drop 4 bs
      else if length bs \<ge> 3 \<and> bs ! 0 = 0x00 \<and> bs ! 1 = 0x00 \<and> bs ! 2 = 0x01
      then drop 3 bs
      else bs)"

definition provided :: "byte list option \<Rightarrow> bool" where
  "provided p = (case p of None \<Rightarrow> False | Some bs \<Rightarrow> length bs > 0)"

definition buildStsd ::
  "string \<Rightarrow> 32 word \<Rightarrow> 32 word \<Rightarrow> 32 word \<Rightarrow> 16 word
     \<Rightarrow> byte list option \<Rightarrow> byte list option \<Rightarrow> error + byte list" where
  "buildStsd codec width height audio_sample_rate' audio_channels' h264_sps h264_pps =
     (let stsd_entries =
        (if codec = ''avc1'' then
           let sps_data = (if provided h264_sps then strip_start_code (the h264_sps)
                           else [0x42, 0x00, 0x1E, 0xE1, 0x00, 0x00, 0x00]);
               pps_data = (if provided h264_pps then strip_start_code (the h264_pps)
                           else [0xE1, 0x00]);
               avcc_size = of_nat (8 + 1 + 1 + 1 + 1 + 1 + 1 + 2 + length sps_data
                                   + 1 + 2 + length pps_data) :: 32 word;
               avc1_size = 4 + 4 + 6 + 2 + 2 + 2 + 4 + 4 + 4 + 2 + 2 + 4 + 4 + 4 + 2 + 32
                           + 2 + 2 + avcc_size;
               profile = (if length sps_data \<ge> 4 then sps_data ! 1 else 0x42);
               compatibility = (if length sps_data \<ge> 4 then sps_data ! 2 else 0x00);
               level = (if length sps_data \<ge> 4 then sps_data ! 3 else 0x1F)
           in emit
             ([writeUint32BE avc1_size,
               writeUint8 (of_char CHR ''a''), writeUint8 (of_char CHR ''v''),
               writeUint8 (of_char CHR ''c''), writeUint8 (of_char CHR ''1''),
               fold (\<lambda>i. writeUint8 0) [0..<6],
               writeUint16BE 1,
               writeUint16BE 0,
               writeUint16BE 0,
               writeUint32BE 0,
               writeUint32BE 0,
               writeUint32BE 0,
               writeUint16BE (ucast width),
               writeUint16BE (ucast height),
               writeUint32BE 0x00480000,
               writeUint32BE 0x00480000,
               writeUint32BE 0,
               writeUint16BE 1,
               fold (\<lambda>i. writeUint8 0) [0..<32],
               writeUint16BE 24,
               writeUint16BE 0xFFFF,
               writeUint32BE avcc_size,
               writeUint8 (of_char CHR ''a''), writeUint8 (of_char CHR ''v''),
               writeUint8 (of_char CHR ''c''), writeUint8 (of_char CHR ''C''),
               writeUint8 0x01,
               writeUint8 profile,
               writeUint8 compatibility,
               writeUint8 level,
               writeUint8 0xFF,
               writeUint8 0xE1,
               writeUint16BE (of_nat (length sps_data))]
              @ map writeUint8 sps_data
              @ [writeUint8 0x01,
                 writeUint16BE (of_nat (length pps_data))]
              @ map writeUint8 pps_data) []
         else
           let channel_count = (if audio_channels' > 0 then audio_channels' else 2);
               sample_rate = (if audio_sample_rate' > 0 then audio_sample_rate' else 48000);
               sample_rate_index = getSampleRateIndex sample_rate;
               audio_object_type = 2 :: byte;
               asc_bits = push_bit 11 (ucast (audio_object_type AND 0x1F))
                          OR push_bit 7 (ucast (sample_rate_index AND 0x0F))
                          OR push_bit 3 (channel_count AND 0x0F) :: 16 word;
               asc_bytes = [ucast (drop_bit 8 asc_bits AND 0xFF), ucast (asc_bits AND 0xFF)]
                           :: byte list;
               decoder_config = emit
                 [writeUint8 0x40,
                  writeUint8 0x15,
                  writeUint8 0x00,
                  writeUint8 0x00,
                  writeUint8 0x00,
                  writeUint32BE 0x00000000,
                  writeUint32BE 0x00000000,
                  writeUint8 0x05,
                  writeDescriptorLength (of_nat (length asc_bytes)),
                  writeUint8 (asc_bytes ! 0),
                  writeUint8 (asc_bytes ! 1)] [];
               sl_config = emit
                 [writeUint8 0x06,
                  writeDescriptorLength 1,
                  writeUint8 0x02] [];
               decoder_config_descriptor = emit
                 [writeUint8 0x04,
                  writeDescriptorLength (of_nat (length decoder_config)),
                  insert_end decoder_config] [];
               es_descriptor = emit
                 [writeUint16BE 2,
                  writeUint8 0x00,
                  insert_end decoder_config_descriptor,
                  insert_end sl_config] [];
               esds_payload = emit
                 [writeUint32BE 0,
                  writeUint8 0x03,
                  writeDescriptorLength (of_nat (length es_descriptor)),
                  insert_end es_descriptor] [];
               esds_size = 8 + of_nat (length esds_payload) :: 32 word;
               esds_box = emit
                 [writeAtomHeader ''esds'' esds_size,
                  insert_end esds_payload] [];
               mp4a_size = 36 + of_nat (length esds_box) :: 32 word
           in emit
             [writeUint32BE mp4a_size,
              writeUint8 (of_char CHR ''m''), writeUint8 (of_char CHR ''p''),
              writeUint8 (of_char CHR ''4''), writeUint8 (of_char CHR ''a''),
              fold (\<lambda>i. writeUint8 0) [0..<6],
              writeUint16BE 1,
              writeUint16BE 0,
              writeUint16BE 0,
              writeUint32BE 0,
              writeUint16BE channel_count,
              writeUint16BE 16,
              writeUint16BE 0,
              writeUint16BE 0,
              writeUint32BE (push_bit 16 sample_rate),
              insert_end esds_box] []);
        stsd_size = of_nat (8 + 8 + length stsd_entries) :: 32 word
      in Inr (emit
           [writeAtomHeader ''stsd'' stsd_size,
            writeUint32BE 0,
            writeUint32BE 1,
            insert_end stsd_entries] []))"

section \<open>Track and movie boxes (moov\_builder.cpp)\<close>

text \<open>
  \<^verbatim>\<open>int64_t / uint32_t\<close>: the divisor is converted to \<^verbatim>\<open>int64_t\<close> and the quotient
  is truncated towards zero. \<open>buildTrak\<close> and \<open>buildMoov\<close> below test the
  divisor first and return \<open>DivideByZero\<close>, since the division by zero is undefined
  in C++. A product \<^verbatim>\<open>pts * 1000\<close> beyond 63 bits wraps here.
\<close>

definition sdiv64 :: "64 word \<Rightarrow> 64 word \<Rightarrow> 64 word" where
  "sdiv64 a b = word_of_int (sint a sdiv sint b)"

text \<open>The local \<^verbatim>\<open>stts_default_duration\<close> of \<^verbatim>\<open>buildTrak\<close>.\<close>

definition stts_default_duration :: "string \<Rightarrow> 32 word \<Rightarrow> 32 word" where
  "stts_default_duration codec timescale =
     (if codec = ''mp4a'' then 1024
      else if timescale \<ge> 30 then timescale div 30
      else 1)"

text \<open>The loop that writes the unity matrix, the same in mvhd and in tkhd.\<close>

definition matrix :: "byte list \<Rightarrow> byte list" where
  "matrix data =
     fold (\<lambda>i. if i = 0 \<or> i = 4 \<or> i = 8 then writeUint32BE 0x00010000 else writeUint32BE 0)
       [0..<9] data"

definition buildMvhd :: "32 word \<Rightarrow> error + byte list" where
  "buildMvhd duration =
     Inr (emit
       [writeAtomHeader ''mvhd'' 108,
        writeUint32BE 0,
        writeUint32BE 0,
        writeUint32BE 0,
        writeUint32BE 1000,
        writeUint32BE duration,
        writeUint32BE 0x00010000,
        writeUint16BE 0x0100,
        writeUint16BE 0,
        fold (\<lambda>i. writeUint8 0) [0..<8],
        matrix,
        fold (\<lambda>i. writeUint32BE 0) [0..<6],
        writeUint32BE 3] [])"

text \<open>
  A failing \<^verbatim>\<open>if (!build...(...)) return false;\<close> is the \<open>Inl\<close> branch of
  \<open>bind_r\<close>.
\<close>

definition bind_r :: "error + 'a \<Rightarrow> ('a \<Rightarrow> error + 'b) \<Rightarrow> error + 'b" where
  "bind_r m f = (case m of Inl e \<Rightarrow> Inl e | Inr x \<Rightarrow> f x)"

definition buildTrak ::
  "FrameInfo list \<Rightarrow> 32 word \<Rightarrow> 32 word \<Rightarrow> string \<Rightarrow> 32 word \<Rightarrow> 32 word \<Rightarrow> 32 word
     \<Rightarrow> 16 word \<Rightarrow> byte list option \<Rightarrow> byte list option \<Rightarrow> 64 word
     \<Rightarrow> error + byte list" where
  "buildTrak frames track_id' timescale codec video_width' video_height'
       audio_sample_rate' audio_channels' h264_sps h264_pps mdat_start =
     (if frames = [] then Inl InvalidRead
      else if timescale = 0 then Inl DivideByZero
      else
        let tkhd_duration = ucast (sdiv64 (pts (last frames) * 1000) (ucast timescale)) :: 32 word;
            volume = (if codec = ''avc1'' then 0 else 0x0100);
            tkhd_data = emit
              [writeAtomHeader ''tkhd'' 92,
               writeUint32BE 0x0000000F,
               writeUint32BE 0,
               writeUint32BE 0,
               writeUint32BE track_id',
               writeUint32BE 0,
               writeUint32BE tkhd_duration,
               writeUint32BE 0,
               writeUint32BE 0,
               writeUint16BE 0,
               writeUint16BE 0,
               writeUint16BE volume,
               writeUint16BE 0,
               matrix,
               (if codec = ''avc1'' \<and> video_width' > 0 \<and> video_height' > 0
                then emit [writeUint32BE (push_bit 16 video_width'),
                           writeUint32BE (push_bit 16 video_height')]
                else emit [writeUint32BE 0x00010000,
                           writeUint32BE 0x00010000])] [];
            mdhd_data = emit
              [writeAtomHeader ''mdhd'' 32,
               writeUint32BE 0,
               writeUint32BE 0,
               writeUint32BE 0,
               writeUint32BE timescale,
               writeUint32BE (ucast (pts (last frames))),
               writeUint16BE 0x55C4,
               writeUint16BE 0] [];
            handler_type = (if codec = ''avc1'' then ''vide'' else ''soun'');
            hdlr_data = emit
              [writeAtomHeader ''hdlr'' 68,
               writeUint32BE 0,
               writeUint32BE 0,
               fold (\<lambda>i. writeUint8 (of_char (handler_type ! i))) [0..<4],
               fold (\<lambda>i. writeUint32BE 0) [0..<12]] [];
            media_header =
              (if codec = ''avc1''
               then emit [writeAtomHeader ''vmhd'' 20,
                          writeUint32BE 0,
                          writeUint16BE 0,
                          fold (\<lambda>i. writeUint16BE 0) [0..<3]] []
               else emit [writeAtomHeader ''smhd'' 16,
                          writeUint32BE 0,
                          writeUint16BE 0,
                          writeUint16BE 0] []);
            dref_data = emit
              [writeUint32BE 0,
               writeUint32BE 1,
               writeUint32BE 12,
               writeUint8 (of_char CHR ''u''), writeUint8 (of_char CHR ''r''),
               writeUint8 (of_char CHR ''l''), writeUint8 (of_char CHR '' ''),
               writeUint32BE 0x00000001] [];
            dref_box = emit [writeAtomHeader ''dref'' (of_nat (8 + length dref_data)),
                             insert_end dref_data] [];
            dinf_box = emit [writeAtomHeader ''dinf'' (of_nat (8 + length dref_box)),
                             insert_end dref_box] []
        in
        bind_r (buildStsd codec video_width' video_height' audio_sample_rate' audio_channels'
                  h264_sps h264_pps) (\<lambda>stsd_data.
        bind_r (buildStts frames (stts_default_duration codec timescale)) (\<lambda>stts_data.
        bind_r (if codec = ''avc1'' then buildStss frames else Inr []) (\<lambda>stss_data.
        bind_r (buildStsz frames) (\<lambda>stsz_data.
        bind_r (buildStco frames mdat_start) (\<lambda>stco_data.
        bind_r (buildStsc frames) (\<lambda>stsc_data.
          let stbl_data = emit [insert_end stsd_data, insert_end stts_data,
                                insert_end stss_data, insert_end stsz_data,
                                insert_end stco_data, insert_end stsc_data] [];
              stbl_box = emit [writeAtomHeader ''stbl'' (of_nat (8 + length stbl_data)),
                               insert_end stbl_data] [];
              minf_data = emit [insert_end media_header, insert_end dinf_box,
                                insert_end stbl_box] [];
              minf_box = emit [writeAtomHeader ''minf'' (of_nat (8 + length minf_data)),
                               insert_end minf_data] [];
              mdia_size = of_nat (8 + length mdhd_data + length hdlr_data + length minf_box);
              mdia_box = emit [writeAtomHeader ''mdia'' mdia_size,
                               insert_end mdhd_data, insert_end hdlr_data,
                               insert_end minf_box] [];
              trak_size = of_nat (8 + length tkhd_data + length mdia_box)
          in Inr (emit [writeAtomHeader ''trak'' trak_size,
                        insert_end tkhd_data, insert_end mdia_box] []))))))))"

text \<open>
  \<^verbatim>\<open>MoovBuilder::buildMoov\<close>. The duration handed to \<^verbatim>\<open>buildMvhd\<close> is computed
  from the video frames alone. A track whose list is empty is left out.
\<close>

definition buildMoov ::
  "FrameInfo list \<Rightarrow> FrameInfo list \<Rightarrow> 32 word \<Rightarrow> 32 word \<Rightarrow> 32 word \<Rightarrow> 16 word
     \<Rightarrow> 32 word \<Rightarrow> 32 word \<Rightarrow> byte list option \<Rightarrow> byte list option \<Rightarrow> 64 word
     \<Rightarrow> error + byte list" where
  "buildMoov video_frames audio_frames video_timescale' audio_timescale'
       audio_sample_rate' audio_channels' video_width' video_height' h264_sps h264_pps
       mdat_start =
     (if video_frames \<noteq> [] \<and> video_timescale' = 0 then Inl DivideByZero
      else
        let video_duration =
              (if video_frames \<noteq> []
               then ucast (sdiv64 (pts (last video_frames) * 1000) (ucast video_timescale'))
               else 0) :: 32 word
        in
        bind_r (buildMvhd video_duration) (\<lambda>mvhd_data.
        bind_r (if video_frames \<noteq> []
                then buildTrak video_frames 1 video_timescale' ''avc1''
                       video_width' video_height' 0 0 h264_sps h264_pps mdat_start
                else Inr []) (\<lambda>video_trak.
        bind_r (if audio_frames \<noteq> []
                then buildTrak audio_frames 2 audio_timescale' ''mp4a'' 0 0
                       audio_sample_rate' audio_channels' None None mdat_start
                else Inr []) (\<lambda>audio_trak.
          let moov_size = of_nat (8 + length mvhd_data + length video_trak + length audio_trak)
          in Inr (emit [writeAtomHeader ''moov'' moov_size,
                        insert_end mvhd_data,
                        insert_end video_trak,
                        insert_end audio_trak] [])))))"

section \<open>File system (file\_ops.h, file\_ops.cpp)\<close>

text \<open>
  The capability set \<^verbatim>\<open>IFileOps\<close> / \<^verbatim>\<open>IFile\<close> over an explicit store. The store
  is what the operating system holds: what \<^verbatim>\<open>stat\<close> and another \<^verbatim>\<open>fopen\<close> see,
  and what is left when the process is killed. A path holds either raw bytes (the MP4
  file, the lock file) or a journal. The journal is kept as the objects written to it
  (\<^verbatim>\<open>fwrite(&magic)\<close>, \<^verbatim>\<open>fwrite(&config_)\<close>, \<^verbatim>\<open>fwrite(&frame)\<close>), not as bytes:
  their layout in memory is the compiler's. A journal is never opened as raw bytes nor raw
  bytes as a journal; the model refuses such an open.

  A stream (\<^verbatim>\<open>FILE*\<close>) is buffered. \<^verbatim>\<open>fwrite\<close> puts the bytes in the buffer of
  the stream; they reach the store when the stream is flushed: by \<^verbatim>\<open>fflush\<close>, by a
  seek, or by \<^verbatim>\<open>fclose\<close>, which the destructor of \<^verbatim>\<open>StdioFile\<close> calls too. The
  bytes of a buffer that is never flushed are lost with the process. The buffer has no
  bound here: the flush that stdio does by itself when its buffer is full is left out,
  so between two flushes the store holds the least the disk can hold. A stream is bound
  to its path.

  What the operating system may refuse is an oracle \<open>io\<close>, fixed for the length of
  one call of the public interface: whether \<^verbatim>\<open>fopen\<close> of a path succeeds,
  whether \<^verbatim>\<open>fwrite\<close> to it takes all the bytes (else none), whether
  \<^verbatim>\<open>fflush\<close> and \<^verbatim>\<open>fsync\<close> succeed, and the milliseconds on the steady clock since
  the last flush. \<^verbatim>\<open>ftell\<close>, \<^verbatim>\<open>stat\<close> and \<^verbatim>\<open>remove\<close> of an existing file do
  not fail.
\<close>

type_synonym path = string

record idx_content =
  idx_magic :: "32 word option"
  idx_config :: "RecorderConfig option"
  idx_frames :: "FrameInfo list"

datatype content = Bytes "byte list" | Index idx_content

type_synonym fs = "path \<Rightarrow> content option"

record io =
  open_ok :: "path \<Rightarrow> bool"
  write_ok :: "path \<Rightarrow> bool"
  flush_ok :: "path \<Rightarrow> bool"
  elapsed_ms :: "64 word"

text \<open>
  A stream of raw bytes: its path, the offset in the file of the first byte of its
  buffer, and the buffer (the bytes written and not yet flushed).
\<close>

record handle =
  h_path :: path
  h_pos :: nat
  h_buf :: "byte list"

definition fs_exists :: "fs \<Rightarrow> path \<Rightarrow> bool" where
  "fs_exists fs p = (fs p \<noteq> None)"

definition fs_remove :: "fs \<Rightarrow> path \<Rightarrow> bool \<times> fs" where
  "fs_remove fs p = (if fs p \<noteq> None then (True, fs(p := None)) else (False, fs))"

definition getFileSize :: "fs \<Rightarrow> path \<Rightarrow> 64 word option" where
  "getFileSize fs p =
     (case fs p of Some (Bytes bs) \<Rightarrow> Some (of_nat (length bs)) | _ \<Rightarrow> None)"

text \<open>\<^verbatim>\<open>open(path, "wb")\<close>: creates or truncates, at once.\<close>

definition fopen_wb :: "io \<Rightarrow> fs \<Rightarrow> path \<Rightarrow> (handle \<times> fs) option" where
  "fopen_wb io fs p =
     (if open_ok io p
      then Some (\<lparr>h_path = p, h_pos = 0, h_buf = []\<rparr>, fs(p \<mapsto> Bytes []))
      else None)"

text \<open>\<^verbatim>\<open>open(path, "rb")\<close> and \<^verbatim>\<open>open(path, "r+b")\<close>: the file must exist.\<close>

definition fopen_rb :: "io \<Rightarrow> fs \<Rightarrow> path \<Rightarrow> handle option" where
  "fopen_rb io fs p =
     (if open_ok io p
      then (case fs p of
              Some (Bytes bs) \<Rightarrow> Some \<lparr>h_path = p, h_pos = 0, h_buf = []\<rparr>
            | _ \<Rightarrow> None)
      else None)"

text \<open>\<^verbatim>\<open>open(path, "ab")\<close>: creates the file if it is missing; positioned at the end.\<close>

definition fopen_ab :: "io \<Rightarrow> fs \<Rightarrow> path \<Rightarrow> (handle \<times> fs) option" where
  "fopen_ab io fs p =
     (if open_ok io p
      then (case fs p of
              None \<Rightarrow> Some (\<lparr>h_path = p, h_pos = 0, h_buf = []\<rparr>, fs(p \<mapsto> Bytes []))
            | Some (Bytes bs) \<Rightarrow> Some (\<lparr>h_path = p, h_pos = length bs, h_buf = []\<rparr>, fs)
            | Some (Index i) \<Rightarrow> None)
      else None)"

text \<open>
  \<^verbatim>\<open>StdioFile::write\<close>: returns 0 at once for an empty request; else the bytes go
  to the buffer of the stream, not to the store.
\<close>

definition fwrite :: "io \<Rightarrow> handle \<Rightarrow> byte list \<Rightarrow> nat \<times> handle" where
  "fwrite io h data =
     (if data = [] then (0, h)
      else if \<not> write_ok io (h_path h) then (0, h)
      else (length data, h\<lparr>h_buf := h_buf h @ data\<rparr>))"

text \<open>
  The file after the operating system has written \<open>data\<close> at offset \<open>pos\<close>: over
  what is there, growing the file at its end.
\<close>

definition pwrite :: "byte list \<Rightarrow> nat \<Rightarrow> byte list \<Rightarrow> byte list" where
  "pwrite bs pos data =
     take pos bs @ replicate (pos - length bs) 0 @ data @ drop (pos + length data) bs"

text \<open>
  \<^verbatim>\<open>StdioFile::flush\<close>: the buffer is written to the file at the position of the
  stream and emptied. A refused flush writes nothing and keeps the buffer.
\<close>

definition fflush :: "io \<Rightarrow> fs \<Rightarrow> handle \<Rightarrow> bool \<times> fs \<times> handle" where
  "fflush io fs h =
     (if \<not> flush_ok io (h_path h) then (False, fs, h)
      else if h_buf h = [] then (True, fs, h)
      else (True,
            (case fs (h_path h) of
               Some (Bytes bs) \<Rightarrow> fs(h_path h \<mapsto> Bytes (pwrite bs (h_pos h) (h_buf h)))
             | _ \<Rightarrow> fs),
            h\<lparr>h_pos := h_pos h + length (h_buf h), h_buf := []\<rparr>))"

text \<open>\<^verbatim>\<open>StdioFile::sync\<close>: the store is what the operating system holds already.\<close>

definition fsync :: "io \<Rightarrow> handle \<Rightarrow> bool" where
  "fsync io h = flush_ok io (h_path h)"

text \<open>
  \<^verbatim>\<open>StdioFile::close\<close>, also run by the destructor: \<^verbatim>\<open>fclose\<close> flushes, and
  what it cannot flush is lost.
\<close>

definition fclose :: "io \<Rightarrow> fs \<Rightarrow> handle \<Rightarrow> fs" where
  "fclose io fs h = fst (snd (fflush io fs h))"

text \<open>
  A \<^verbatim>\<open>unique_ptr<IFile>\<close> that is assigned to, or reset, destroys the stream it held.
\<close>

definition release :: "io \<Rightarrow> fs \<Rightarrow> handle option \<Rightarrow> fs" where
  "release io fs old = (case old of None \<Rightarrow> fs | Some h \<Rightarrow> fclose io fs h)"

text \<open>\<^verbatim>\<open>StdioFile::tell\<close>: the position counts the bytes of the buffer.\<close>

definition ftell :: "handle \<Rightarrow> nat" where
  "ftell h = h_pos h + length (h_buf h)"

text \<open>\<^verbatim>\<open>StdioFile::read\<close>, on a stream with nothing to flush.\<close>

definition fread_at :: "fs \<Rightarrow> handle \<Rightarrow> nat \<Rightarrow> byte list" where
  "fread_at fs h n =
     (case fs (h_path h) of Some (Bytes bs) \<Rightarrow> take n (drop (h_pos h) bs) | _ \<Rightarrow> [])"

text \<open>
  \<^verbatim>\<open>seek(offset, SEEK_SET)\<close> with an \<^verbatim>\<open>int64_t\<close> offset: a negative one fails;
  else the buffer is flushed first, and the seek fails if the flush does.
\<close>

definition fseek_set :: "io \<Rightarrow> fs \<Rightarrow> handle \<Rightarrow> 64 word \<Rightarrow> bool \<times> fs \<times> handle" where
  "fseek_set io fs h off =
     (if sint off < 0 then (False, fs, h)
      else if h_buf h = [] then (True, fs, h\<lparr>h_pos := unat off\<rparr>)
      else (case fflush io fs h of (ok, fs', h') \<Rightarrow>
              if ok then (True, fs', h'\<lparr>h_pos := unat off\<rparr>) else (False, fs, h)))"

text \<open>
  The journal stream: created empty, then one object put in the buffer by each write,
  and the objects of the buffer appended to the journal by a flush.
\<close>

datatype idx_item = Magic "32 word" | Config RecorderConfig | Frame FrameInfo

record idx_handle =
  ih_path :: path
  ih_buf :: "idx_item list"

fun put_item :: "idx_item \<Rightarrow> idx_content \<Rightarrow> idx_content" where
  "put_item (Magic m) i = i\<lparr>idx_magic := Some m\<rparr>"
| "put_item (Config c) i = i\<lparr>idx_config := Some c\<rparr>"
| "put_item (Frame r) i = i\<lparr>idx_frames := idx_frames i @ [r]\<rparr>"

definition idx_open_wb :: "io \<Rightarrow> fs \<Rightarrow> path \<Rightarrow> (idx_handle \<times> fs) option" where
  "idx_open_wb io fs p =
     (if open_ok io p
      then Some (\<lparr>ih_path = p, ih_buf = []\<rparr>,
                 fs(p \<mapsto> Index \<lparr>idx_magic = None, idx_config = None, idx_frames = []\<rparr>))
      else None)"

definition idx_write :: "io \<Rightarrow> idx_handle \<Rightarrow> idx_item \<Rightarrow> bool \<times> idx_handle" where
  "idx_write io h item =
     (if write_ok io (ih_path h) then (True, h\<lparr>ih_buf := ih_buf h @ [item]\<rparr>) else (False, h))"

definition idx_flush :: "io \<Rightarrow> fs \<Rightarrow> idx_handle \<Rightarrow> bool \<times> fs \<times> idx_handle" where
  "idx_flush io fs h =
     (if \<not> flush_ok io (ih_path h) then (False, fs, h)
      else (True,
            (case fs (ih_path h) of
               Some (Index i) \<Rightarrow> fs(ih_path h \<mapsto> Index (fold put_item (ih_buf h) i))
             | _ \<Rightarrow> fs),
            h\<lparr>ih_buf := []\<rparr>))"

definition idx_sync :: "io \<Rightarrow> idx_handle \<Rightarrow> bool" where
  "idx_sync io h = flush_ok io (ih_path h)"

definition idx_close :: "io \<Rightarrow> fs \<Rightarrow> idx_handle \<Rightarrow> fs" where
  "idx_close io fs h = fst (snd (idx_flush io fs h))"

definition idx_release :: "io \<Rightarrow> fs \<Rightarrow> idx_handle option \<Rightarrow> fs" where
  "idx_release io fs old = (case old of None \<Rightarrow> fs | Some h \<Rightarrow> idx_close io fs h)"

section \<open>Journal reader (index\_file.cpp)\<close>

definition IndexFile_open :: "io \<Rightarrow> fs \<Rightarrow> path \<Rightarrow> idx_content option" where
  "IndexFile_open io fs p =
     (if open_ok io p then (case fs p of Some (Index i) \<Rightarrow> Some i | _ \<Rightarrow> None) else None)"

definition readConfig :: "idx_content \<Rightarrow> error + RecorderConfig" where
  "readConfig i =
     (case idx_magic i of
        None \<Rightarrow> Inl BadMagic
      | Some magic \<Rightarrow>
          if magic \<noteq> 0x4D503452 then Inl BadMagic
          else (case idx_config i of None \<Rightarrow> Inl BadConfig | Some c \<Rightarrow> Inr c))"

definition readAllFrames :: "idx_content \<Rightarrow> FrameInfo list \<times> FrameInfo list" where
  "readAllFrames i =
     (filter (\<lambda>frame. track_id frame = 0) (idx_frames i),
      filter (\<lambda>frame. track_id frame = 1) (idx_frames i))"

section \<open>Recorder (mp4\_recorder.h, mp4\_recorder.cpp)\<close>

text \<open>
  The members of \<^verbatim>\<open>class Mp4Recorder\<close>; a member \<^verbatim>\<open>x_\<close> of the source is
  \<open>x_m\<close> here. An open \<^verbatim>\<open>unique_ptr<IFile>\<close> is \<open>Some\<close> stream, a null one is
  \<open>None\<close>. \<^verbatim>\<open>last_flush_time_\<close> is replaced by the oracle's \<open>elapsed_ms\<close>.
\<close>

record Mp4Recorder =
  mp4_filename_m :: path
  idx_filename_m :: path
  lock_filename_m :: path
  mp4_file_m :: "handle option"
  idx_file_m :: "idx_handle option"
  lock_file_m :: "handle option"
  config_m :: RecorderConfig
  recording_m :: bool
  frame_count_m :: "64 word"
  mdat_start_m :: "64 word"
  mdat_size_m :: "64 word"
  video_frames_m :: "FrameInfo list"
  audio_frames_m :: "FrameInfo list"
  h264_sps_m :: "byte list"
  h264_pps_m :: "byte list"
  frames_since_flush_m :: "32 word"

definition new_recorder :: Mp4Recorder where
  "new_recorder =
     \<lparr>mp4_filename_m = [], idx_filename_m = [], lock_filename_m = [],
      mp4_file_m = None, idx_file_m = None, lock_file_m = None,
      config_m = default_config, recording_m = False, frame_count_m = 0,
      mdat_start_m = 0, mdat_size_m = 0, video_frames_m = [], audio_frames_m = [],
      h264_sps_m = [], h264_pps_m = [], frames_since_flush_m = 0\<rparr>"

text \<open>The recorder with the file system it works on.\<close>

record world =
  files :: fs
  rcd :: Mp4Recorder

definition ftyp :: "byte list" where
  "ftyp =
     [0x00, 0x00, 0x00, 0x20] @ map of_char ''ftyp'' @ map of_char ''isom''
     @ [0x00, 0x00, 0x02, 0x00] @ map of_char ''isom'' @ map of_char ''iso2''
     @ map of_char ''avc1'' @ map of_char ''mp41''"

definition mdat_header :: "byte list" where
  "mdat_header = [0x00, 0x00, 0x00, 0x00] @ map of_char ''mdat''"

text \<open>
  \<^verbatim>\<open>Mp4Recorder::createFiles\<close>. Each of the three streams is opened and then
  assigned to its member, which destroys the stream the member held. The journal and the
  lock file are flushed (the results are not tested); the MP4 stream is not: its 40
  bytes stay in its buffer. No failure removes a file.
\<close>

definition createFiles :: "io \<Rightarrow> world \<Rightarrow> path \<Rightarrow> (error + unit) \<times> world" where
  "createFiles io w filename =
     (case fopen_wb io (files w) filename of
        None \<Rightarrow>
          (Inl IoOpen, \<lparr>files = release io (files w) (mp4_file_m (rcd w)),
                         rcd = (rcd w)\<lparr>mp4_file_m := None\<rparr>\<rparr>)
      | Some (h0, fs0) \<Rightarrow>
          let fs1 = release io fs0 (mp4_file_m (rcd w)) in
     (case fwrite io h0 ftyp of (n1, h1) \<Rightarrow>
        if n1 \<noteq> length ftyp
        then (Inl IoWrite, \<lparr>files = fs1, rcd = (rcd w)\<lparr>mp4_file_m := Some h1\<rparr>\<rparr>)
        else
     (case fwrite io h1 mdat_header of (n2, h2) \<Rightarrow>
        if n2 \<noteq> length mdat_header
        then (Inl IoWrite, \<lparr>files = fs1, rcd = (rcd w)\<lparr>mp4_file_m := Some h2\<rparr>\<rparr>)
        else
          let r2 = (rcd w)\<lparr>mp4_file_m := Some h2, mdat_start_m := of_nat (ftell h2),
                           mdat_size_m := 0\<rparr>
          in
     (case idx_open_wb io fs1 (idx_filename_m r2) of
        None \<Rightarrow>
          (Inl IoOpen, \<lparr>files = idx_release io fs1 (idx_file_m r2),
                         rcd = r2\<lparr>idx_file_m := None\<rparr>\<rparr>)
      | Some (i0, fs2) \<Rightarrow>
          let fs3 = idx_release io fs2 (idx_file_m r2) in
     (case idx_write io i0 (Magic 0x4D503452) of (ok1, i1) \<Rightarrow>
        if \<not> ok1 then (Inl IoWrite, \<lparr>files = fs3, rcd = r2\<lparr>idx_file_m := Some i1\<rparr>\<rparr>)
        else
     (case idx_write io i1 (Config (config_m r2)) of (ok2, i2) \<Rightarrow>
        if \<not> ok2 then (Inl IoWrite, \<lparr>files = fs3, rcd = r2\<lparr>idx_file_m := Some i2\<rparr>\<rparr>)
        else
     (case idx_flush io fs3 i2 of (ok3, fs4, i3) \<Rightarrow>
          let r3 = r2\<lparr>idx_file_m := Some i3\<rparr> in
     (case fopen_wb io fs4 (lock_filename_m r3) of
        None \<Rightarrow>
          (Inl IoOpen, \<lparr>files = release io fs4 (lock_file_m r3),
                         rcd = r3\<lparr>lock_file_m := None\<rparr>\<rparr>)
      | Some (l0, fs5) \<Rightarrow>
          let fs6 = release io fs5 (lock_file_m r3) in
     (case fwrite io l0 (map of_char ''RECORDING'') of (n, l1) \<Rightarrow>
     (case fflush io fs6 l1 of (ok4, fs7, l2) \<Rightarrow>
        (Inr (), \<lparr>files = fs7, rcd = r3\<lparr>lock_file_m := Some l2\<rparr>\<rparr>)))))))))))"

definition start :: "io \<Rightarrow> world \<Rightarrow> path \<Rightarrow> RecorderConfig \<Rightarrow> (error + unit) \<times> world" where
  "start io w filename cfg =
     (if recording_m (rcd w) then (Inl AlreadyRecording, w)
      else
        let r1 = (rcd w)\<lparr>mp4_filename_m := filename,
                         idx_filename_m := filename @ ''.idx'',
                         lock_filename_m := filename @ ''.lock'',
                         config_m := cfg\<rparr>
        in (case createFiles io (w\<lparr>rcd := r1\<rparr>) filename of
              (Inl e, w') \<Rightarrow> (Inl e, w')
            | (Inr u, w') \<Rightarrow>
                (Inr (), w'\<lparr>rcd := (rcd w')\<lparr>recording_m := True, frame_count_m := 0,
                                            frames_since_flush_m := 0\<rparr>\<rparr>)))"

definition setH264Config ::
  "world \<Rightarrow> byte list option \<Rightarrow> byte list option \<Rightarrow> (error + unit) \<times> world" where
  "setH264Config w sps pps =
     (if \<not> provided sps \<or> \<not> provided pps then (Inl InvalidArgument, w)
      else (Inr (), w\<lparr>rcd := (rcd w)\<lparr>h264_sps_m := the sps, h264_pps_m := the pps\<rparr>\<rparr>))"

text \<open>
  \<^verbatim>\<open>writeFrameToMdat(data, size)\<close>. The sample is a pointer (\<open>None\<close> when null) and
  a size of its own. A size of 0 makes \<^verbatim>\<open>StdioFile::write\<close> return 0 before the
  pointer is read, and 0 is the size asked for.
\<close>

definition writeFrameToMdat ::
  "io \<Rightarrow> world \<Rightarrow> byte list option \<Rightarrow> 32 word \<Rightarrow> (error + unit) \<times> world" where
  "writeFrameToMdat io w data sz =
     (case mp4_file_m (rcd w) of
        None \<Rightarrow> (Inl NullHandle, w)
      | Some h \<Rightarrow>
          if sz = 0 then (Inr (), w)
          else (case data of
                  None \<Rightarrow> (Inl InvalidRead, w)
                | Some bs \<Rightarrow>
                    if length bs < unat sz then (Inl InvalidRead, w)
                    else (case fwrite io h (take (unat sz) bs) of (n, h') \<Rightarrow>
                            if n \<noteq> unat sz
                            then (Inl IoWrite, w\<lparr>rcd := (rcd w)\<lparr>mp4_file_m := Some h'\<rparr>\<rparr>)
                            else (Inr (), w\<lparr>rcd := (rcd w)\<lparr>mp4_file_m := Some h'\<rparr>\<rparr>))))"

definition logFrameToIndex :: "io \<Rightarrow> world \<Rightarrow> FrameInfo \<Rightarrow> (error + unit) \<times> world" where
  "logFrameToIndex io w frame =
     (case idx_file_m (rcd w) of
        None \<Rightarrow> (Inl IndexNotOpen, w)
      | Some i \<Rightarrow>
          (case idx_write io i (Frame frame) of (ok, i') \<Rightarrow>
             if \<not> ok then (Inl IoWrite, w\<lparr>rcd := (rcd w)\<lparr>idx_file_m := Some i'\<rparr>\<rparr>)
             else
               (Inr (),
                w\<lparr>rcd := (if track_id frame = 0
                           then (rcd w)\<lparr>idx_file_m := Some i',
                                        video_frames_m := video_frames_m (rcd w) @ [frame]\<rparr>
                           else if track_id frame = 1
                           then (rcd w)\<lparr>idx_file_m := Some i',
                                        audio_frames_m := audio_frames_m (rcd w) @ [frame]\<rparr>
                           else (rcd w)\<lparr>idx_file_m := Some i'\<rparr>)\<rparr>)))"

text \<open>
  \<^verbatim>\<open>Mp4Recorder::flushIfNeeded\<close>: when the interval has elapsed or enough frames were
  written, both streams are flushed, then both are synced; the first call that fails
  ends it.
\<close>

definition flushIfNeeded :: "io \<Rightarrow> world \<Rightarrow> (error + unit) \<times> world" where
  "flushIfNeeded io w =
     (if elapsed_ms io \<ge> ucast (flush_interval_ms (config_m (rcd w)))
         \<or> frames_since_flush_m (rcd w) \<ge> flush_frame_count (config_m (rcd w))
      then (case mp4_file_m (rcd w) of
              None \<Rightarrow> (Inl NullHandle, w)
            | Some h \<Rightarrow>
           (case fflush io (files w) h of (ok1, fs1, h1) \<Rightarrow>
              let w1 = \<lparr>files = fs1, rcd = (rcd w)\<lparr>mp4_file_m := Some h1\<rparr>\<rparr> in
              if \<not> ok1 then (Inl IoFlush, w1)
              else
           (case idx_file_m (rcd w1) of
              None \<Rightarrow> (Inl NullHandle, w1)
            | Some i \<Rightarrow>
           (case idx_flush io fs1 i of (ok2, fs2, i1) \<Rightarrow>
              let w2 = \<lparr>files = fs2, rcd = (rcd w1)\<lparr>idx_file_m := Some i1\<rparr>\<rparr> in
              if \<not> ok2 then (Inl IoFlush, w2)
              else if \<not> fsync io h1 then (Inl IoFlush, w2)
              else if \<not> idx_sync io i1 then (Inl IoFlush, w2)
              else (Inr (), w2\<lparr>rcd := (rcd w2)\<lparr>frames_since_flush_m := 0\<rparr>\<rparr>)))))
      else (Inr (), w))"

text \<open>The three counters that both write calls bump after the journal write.\<close>

definition count_frame :: "world \<Rightarrow> 32 word \<Rightarrow> world" where
  "count_frame w sz =
     w\<lparr>rcd := (rcd w)\<lparr>mdat_size_m := mdat_size_m (rcd w) + ucast sz,
                       frame_count_m := frame_count_m (rcd w) + 1,
                       frames_since_flush_m := frames_since_flush_m (rcd w) + 1\<rparr>\<rparr>"

definition writeVideoFrame ::
  "io \<Rightarrow> world \<Rightarrow> byte list option \<Rightarrow> 32 word \<Rightarrow> 64 word \<Rightarrow> bool
     \<Rightarrow> (error + unit) \<times> world" where
  "writeVideoFrame io w data sz pts' is_keyframe' =
     (if \<not> recording_m (rcd w) then (Inl NotRecording, w)
      else
        let frame = \<lparr>offset = mdat_size_m (rcd w), size_f = sz, pts = pts', dts = pts',
                     is_keyframe = (if is_keyframe' then 1 else 0), track_id = 0\<rparr>
        in (case writeFrameToMdat io w data sz of
              (Inl e, w1) \<Rightarrow> (Inl e, w1)
            | (Inr u, w1) \<Rightarrow>
                (case logFrameToIndex io w1 frame of
                   (Inl e, w2) \<Rightarrow> (Inl e, w2)
                 | (Inr u, w2) \<Rightarrow> flushIfNeeded io (count_frame w2 sz))))"

definition writeAudioFrame ::
  "io \<Rightarrow> world \<Rightarrow> byte list option \<Rightarrow> 32 word \<Rightarrow> 64 word \<Rightarrow> (error + unit) \<times> world" where
  "writeAudioFrame io w data sz pts' =
     (if \<not> recording_m (rcd w) then (Inl NotRecording, w)
      else (case writeFrameToMdat io w data sz of
              (Inl e, w1) \<Rightarrow> (Inl e, w1)
            | (Inr u, w1) \<Rightarrow>
                let frame = \<lparr>offset = mdat_size_m (rcd w1), size_f = sz, pts = pts',
                             dts = pts', is_keyframe = 1, track_id = 1\<rparr>
                in (case logFrameToIndex io w1 frame of
                      (Inl e, w2) \<Rightarrow> (Inl e, w2)
                    | (Inr u, w2) \<Rightarrow> flushIfNeeded io (count_frame w2 sz))))"

text \<open>
  \<^verbatim>\<open>MoovBuilder::writeMoovToFile\<close>: the file is opened for append (the seek to its
  end leaves the new stream where it is), the moov is written and the stream flushed, and
  a short write is the only failure tested after the open. The stream is closed on both
  ways out.
\<close>

definition writeMoovToFile :: "io \<Rightarrow> fs \<Rightarrow> path \<Rightarrow> byte list \<Rightarrow> (error + unit) \<times> fs" where
  "writeMoovToFile io fs filename moov_data =
     (case fopen_ab io fs filename of
        None \<Rightarrow> (Inl IoOpen, fs)
      | Some (h, fs1) \<Rightarrow>
          (case fwrite io h moov_data of (written, h1) \<Rightarrow>
          (case fflush io fs1 h1 of (ok, fs2, h2) \<Rightarrow>
             if written \<noteq> length moov_data then (Inl IoWrite, fclose io fs2 h2)
             else (Inr (), fclose io fs2 h2))))"

text \<open>\<^verbatim>\<open>v.empty() ? nullptr : v.data()\<close>, with \<^verbatim>\<open>v.size()\<close>.\<close>

definition ptr :: "byte list \<Rightarrow> byte list option" where
  "ptr v = (if v = [] then None else Some v)"

definition buildAndWriteMoov :: "io \<Rightarrow> world \<Rightarrow> (error + unit) \<times> world" where
  "buildAndWriteMoov io w =
     (let r = rcd w; c = config_m r in
      case buildMoov (video_frames_m r) (audio_frames_m r)
             (video_timescale c) (audio_timescale c)
             (audio_sample_rate c) (audio_channels c)
             (video_width c) (video_height c)
             (ptr (h264_sps_m r)) (ptr (h264_pps_m r)) (mdat_start_m r) of
        Inl e \<Rightarrow> (Inl e, w)
      | Inr moov_data \<Rightarrow>
          (case writeMoovToFile io (files w) (mp4_filename_m r) moov_data of
             (Inl e, fs') \<Rightarrow> (Inl e, w\<lparr>files := fs'\<rparr>)
           | (Inr u, fs') \<Rightarrow> (Inr (), w\<lparr>files := fs'\<rparr>)))"

definition cleanupFiles :: "world \<Rightarrow> (error + unit) \<times> world" where
  "cleanupFiles w =
     (let fs1 = snd (fs_remove (files w) (idx_filename_m (rcd w)));
          fs2 = snd (fs_remove fs1 (lock_filename_m (rcd w)))
      in (Inr (), w\<lparr>files := fs2\<rparr>))"

text \<open>
  The four bytes \<^verbatim>\<open>size_bytes\<close> that \<^verbatim>\<open>stop\<close> and \<^verbatim>\<open>recover\<close> write
  over the mdat size field.
\<close>

definition size_bytes :: "32 word \<Rightarrow> byte list" where
  "size_bytes mdat_total_size =
     [ucast (drop_bit 24 mdat_total_size AND 0xFF), ucast (drop_bit 16 mdat_total_size AND 0xFF),
      ucast (drop_bit 8 mdat_total_size AND 0xFF), ucast (mdat_total_size AND 0xFF)]"

text \<open>
  \<^verbatim>\<open>Mp4Recorder::stop\<close>. The flag is cleared first. The MP4 stream is flushed,
  moved to the size field, written, flushed and closed; the results of these calls are
  not tested by the source. After the moov is appended the journal and the lock file are
  closed, then removed.
\<close>

definition stop :: "io \<Rightarrow> world \<Rightarrow> (error + unit) \<times> world" where
  "stop io w =
     (if \<not> recording_m (rcd w) then (Inl NotRecording, w)
      else
        let r0 = (rcd w)\<lparr>recording_m := False\<rparr>;
            mdat_total_size = ucast (8 + mdat_size_m r0) :: 32 word;
            w1 = (case mp4_file_m r0 of
                    None \<Rightarrow> \<lparr>files = files w, rcd = r0\<rparr>
                  | Some h \<Rightarrow>
                      (case fflush io (files w) h of (ok1, fs1, h1) \<Rightarrow>
                      (case fseek_set io fs1 h1 (mdat_start_m r0 - 8) of (ok2, fs2, h2) \<Rightarrow>
                      (case fwrite io h2 (size_bytes mdat_total_size) of (n, h3) \<Rightarrow>
                      (case fflush io fs2 h3 of (ok3, fs3, h4) \<Rightarrow>
                         \<lparr>files = fclose io fs3 h4, rcd = r0\<lparr>mp4_file_m := None\<rparr>\<rparr>)))))
        in (case buildAndWriteMoov io w1 of
              (Inl e, w2) \<Rightarrow> (Inl e, w2)
            | (Inr u, w2) \<Rightarrow>
                let fs4 = idx_release io (files w2) (idx_file_m (rcd w2));
                    fs5 = release io fs4 (lock_file_m (rcd w2))
                in cleanupFiles \<lparr>files = fs5,
                                  rcd = (rcd w2)\<lparr>idx_file_m := None, lock_file_m := None\<rparr>\<rparr>))"

definition hasIncompleteRecording :: "fs \<Rightarrow> path \<Rightarrow> bool" where
  "hasIncompleteRecording fs filename =
     (let lock_file = filename @ ''.lock'';
          idx_file = filename @ ''.idx''
      in fs_exists fs lock_file \<and> fs_exists fs idx_file)"

section \<open>Recovery (mp4\_recorder.cpp)\<close>

text \<open>
  \<^verbatim>\<open>extractH264ConfigFromSample\<close>. The pair (SPS, PPS) found so far is passed
  along and returned, as the two vectors passed by reference are. The lengths are
  \<^verbatim>\<open>size_t\<close> values, here natural numbers.
\<close>

definition readBE32 :: "byte list \<Rightarrow> 32 word" where
  "readBE32 p =
     push_bit 24 (ucast (p ! 0)) OR push_bit 16 (ucast (p ! 1))
     OR push_bit 8 (ucast (p ! 2)) OR ucast (p ! 3)"

definition handleNal :: "byte list \<Rightarrow> byte list \<times> byte list \<Rightarrow> byte list \<times> byte list" where
  "handleNal nal sp =
     (case sp of (sps, pps) \<Rightarrow>
        if length nal = 0 then (sps, pps)
        else if length nal > 256 then (sps, pps)
        else
          let nal_type = nal ! 0 AND 0x1F in
          if nal_type = 7 \<and> sps = [] then (nal, pps)
          else if nal_type = 8 \<and> pps = [] then (sps, nal)
          else (sps, pps))"

definition found :: "byte list \<times> byte list \<Rightarrow> bool" where
  "found sp = (fst sp \<noteq> [] \<and> snd sp \<noteq> [])"

definition start_len :: "byte list \<Rightarrow> nat \<Rightarrow> nat" where
  "start_len sample pos =
     (if pos + 3 < length sample \<and> sample ! pos = 0x00 \<and> sample ! (pos + 1) = 0x00
         \<and> sample ! (pos + 2) = 0x01
      then 3
      else if pos + 4 < length sample \<and> sample ! pos = 0x00 \<and> sample ! (pos + 1) = 0x00
              \<and> sample ! (pos + 2) = 0x00 \<and> sample ! (pos + 3) = 0x01
      then 4
      else 0)"

function start_code_loop ::
  "byte list \<Rightarrow> nat \<Rightarrow> nat \<Rightarrow> byte list \<times> byte list \<Rightarrow> bool \<times> byte list \<times> byte list" where
  "start_code_loop sample pos start' sp =
     (if pos + 3 < length sample then
        (if start_len sample pos \<noteq> 0 then
           (if start' < pos \<and> found (handleNal (take (pos - start') (drop start' sample)) sp)
            then (True, handleNal (take (pos - start') (drop start' sample)) sp)
            else start_code_loop sample (pos + start_len sample pos) (pos + start_len sample pos)
                   (if start' < pos then handleNal (take (pos - start') (drop start' sample)) sp
                    else sp))
         else start_code_loop sample (pos + 1) start' sp)
      else
        (let sp' = (if start' < length sample then handleNal (drop start' sample) sp else sp)
         in (found sp', sp')))"
  by pat_completeness auto
termination
  by (relation "measure (\<lambda>(sample, pos, start', sp). length sample - pos)") auto

function length_prefixed_loop ::
  "byte list \<Rightarrow> nat \<Rightarrow> byte list \<times> byte list \<Rightarrow> bool \<times> byte list \<times> byte list" where
  "length_prefixed_loop sample pos sp =
     (if pos + 4 \<le> length sample then
        (let nal_size = readBE32 (drop pos sample) in
         if nal_size = 0 \<or> pos + 4 + unat nal_size > length sample then (found sp, sp)
         else if found (handleNal (take (unat nal_size) (drop (pos + 4) sample)) sp)
         then (True, handleNal (take (unat nal_size) (drop (pos + 4) sample)) sp)
         else length_prefixed_loop sample (pos + 4 + unat nal_size)
                (handleNal (take (unat nal_size) (drop (pos + 4) sample)) sp))
      else (found sp, sp))"
  by pat_completeness auto
termination
  by (relation "measure (\<lambda>(sample, pos, sp). length sample - pos)") auto

definition extractH264ConfigFromSample ::
  "byte list \<Rightarrow> byte list \<times> byte list \<Rightarrow> bool \<times> byte list \<times> byte list" where
  "extractH264ConfigFromSample sample sp =
     (if length sample < 4 then (False, sp)
      else
        let has_start_code =
              (length sample \<ge> 4 \<and> sample ! 0 = 0x00 \<and> sample ! 1 = 0x00
                 \<and> sample ! 2 = 0x00 \<and> sample ! 3 = 0x01)
              \<or> (length sample \<ge> 3 \<and> sample ! 0 = 0x00 \<and> sample ! 1 = 0x00
                    \<and> sample ! 2 = 0x01)
        in if has_start_code then start_code_loop sample 0 0 sp
           else length_prefixed_loop sample 0 sp)"

text \<open>
  \<^verbatim>\<open>extractH264ConfigFromMdat\<close>: a stream of its own, opened for reading, on
  which nothing is written.
\<close>

fun extract_frames ::
  "io \<Rightarrow> fs \<Rightarrow> handle \<Rightarrow> 64 word \<Rightarrow> FrameInfo list \<Rightarrow> byte list \<times> byte list
     \<Rightarrow> bool \<times> byte list \<times> byte list" where
  "extract_frames io fs file mdat_start [] sp = (False, sp)"
| "extract_frames io fs file mdat_start (frame # rest) sp =
     (if size_f frame = 0 then extract_frames io fs file mdat_start rest sp
      else
        (case fseek_set io fs file (mdat_start + offset frame) of
           (False, fs', file') \<Rightarrow> extract_frames io fs' file' mdat_start rest sp
         | (True, fs', file') \<Rightarrow>
             let sample = fread_at fs' file' (unat (size_f frame)) in
             if length sample \<noteq> unat (size_f frame)
             then extract_frames io fs' (file'\<lparr>h_pos := h_pos file' + length sample\<rparr>)
                    mdat_start rest sp
             else (case extractH264ConfigFromSample sample sp of
                     (True, sp') \<Rightarrow> (True, sp')
                   | (False, sp') \<Rightarrow>
                       extract_frames io fs' (file'\<lparr>h_pos := h_pos file' + length sample\<rparr>)
                         mdat_start rest sp')))"

definition extractH264ConfigFromMdat ::
  "io \<Rightarrow> fs \<Rightarrow> path \<Rightarrow> 64 word \<Rightarrow> FrameInfo list \<Rightarrow> bool \<times> byte list \<times> byte list" where
  "extractH264ConfigFromMdat io fs filename mdat_start video_frames =
     (case fopen_rb io fs filename of
        None \<Rightarrow> (False, [], [])
      | Some file \<Rightarrow> extract_frames io fs file mdat_start video_frames ([], []))"

text \<open>
  \<^verbatim>\<open>Mp4Recorder::recover\<close>, in three stages so that the states of the disk between
  them have a name: steps 1 to 4 of the specification (read the journal, patch the mdat
  size field and flush it), steps 5 to 7 (extract SPS and PPS, build the moov, append it)
  and step 8 (unlink the sidecars). The stream \<^verbatim>\<open>mp4_file\<close> of the first stage is
  local to \<^verbatim>\<open>recover\<close> and is destroyed on every way out after it. The size
  \<^verbatim>\<open>mdat_size\<close> that the source computes from the records is only logged, and is
  left out.
\<close>

definition recover_patch ::
  "io \<Rightarrow> fs \<Rightarrow> path
     \<Rightarrow> error + (RecorderConfig \<times> FrameInfo list \<times> FrameInfo list \<times> fs \<times> handle)" where
  "recover_patch io fs filename =
     (let idx_filename = filename @ ''.idx'' in
      case IndexFile_open io fs idx_filename of
        None \<Rightarrow> Inl IoOpen
      | Some idx \<Rightarrow>
     (case readConfig idx of
        Inl e \<Rightarrow> Inl e
      | Inr recovery_config \<Rightarrow>
     (case readAllFrames idx of (video_frames, audio_frames) \<Rightarrow>
     (case fopen_rb io fs filename of
        None \<Rightarrow> Inl IoOpen
      | Some mp4_file \<Rightarrow>
     (case getFileSize fs filename of
        None \<Rightarrow> Inl IoSize
      | Some file_size \<Rightarrow>
          if file_size < 40 then Inl FileTooSmall
          else
     (case fseek_set io fs mp4_file 32 of (ok, fs0, h0) \<Rightarrow>
          if \<not> ok then Inl IoSeek
          else
            let mdat_total_size_64 = file_size - 32 in
            if mdat_total_size_64 > 0xFFFFFFFF then Inl MdatTooBig
            else
     (case fwrite io h0 (size_bytes (ucast mdat_total_size_64)) of (n, h1) \<Rightarrow>
        if n \<noteq> 4 then Inl IoWrite
        else
     (case fflush io fs0 h1 of (ok', fs1, h2) \<Rightarrow>
        Inr (recovery_config, video_frames, audio_frames, fs1, h2)))))))))"

definition recover_moov ::
  "io \<Rightarrow> fs \<Rightarrow> path \<Rightarrow> RecorderConfig \<Rightarrow> FrameInfo list \<Rightarrow> FrameInfo list
     \<Rightarrow> (error + unit) \<times> fs" where
  "recover_moov io fs1 filename recovery_config video_frames audio_frames =
     (let mdat_start = 40 in
      case extractH264ConfigFromMdat io fs1 filename mdat_start video_frames of
        (ok, recovered_sps, recovered_pps) \<Rightarrow>
     (case buildMoov video_frames audio_frames
             (video_timescale recovery_config) (audio_timescale recovery_config)
             (audio_sample_rate recovery_config) (audio_channels recovery_config)
             (video_width recovery_config) (video_height recovery_config)
             (ptr recovered_sps) (ptr recovered_pps) mdat_start of
        Inl e \<Rightarrow> (Inl e, fs1)
      | Inr moov_data \<Rightarrow> writeMoovToFile io fs1 filename moov_data))"

definition recover :: "io \<Rightarrow> fs \<Rightarrow> path \<Rightarrow> (error + unit) \<times> fs" where
  "recover io fs filename =
     (case recover_patch io fs filename of
        Inl e \<Rightarrow> (Inl e, fs)
      | Inr (recovery_config, video_frames, audio_frames, fs1, mp4_file) \<Rightarrow>
     (case recover_moov io fs1 filename recovery_config video_frames audio_frames of
        (Inl e, fs2) \<Rightarrow> (Inl e, fclose io fs2 mp4_file)
      | (Inr u, fs2) \<Rightarrow>
          (Inr (), fclose io (snd (fs_remove (snd (fs_remove fs2 (filename @ ''.idx'')))
                                    (filename @ ''.lock''))) mp4_file)))"

text \<open>
  The disk a run of \<open>recover\<close> leaves when the process is killed right after step 4
  (the size field is patched and flushed), and when it is killed right after step 7 (the
  moov is appended, the sidecars are not yet unlinked). A run that fails before writes
  nothing.
\<close>

definition disk_after_patch :: "io \<Rightarrow> fs \<Rightarrow> path \<Rightarrow> fs" where
  "disk_after_patch io fs filename =
     (case recover_patch io fs filename of
        Inl e \<Rightarrow> fs
      | Inr (recovery_config, video_frames, audio_frames, fs1, mp4_file) \<Rightarrow> fs1)"

definition disk_after_moov :: "io \<Rightarrow> fs \<Rightarrow> path \<Rightarrow> fs" where
  "disk_after_moov io fs filename =
     (case recover_patch io fs filename of
        Inl e \<Rightarrow> fs
      | Inr (recovery_config, video_frames, audio_frames, fs1, mp4_file) \<Rightarrow>
          snd (recover_moov io fs1 filename recovery_config video_frames audio_frames))"

section \<open>Sessions\<close>

text \<open>
  A call of the write interface, and a session's calls run in order up to the first one
  that fails. Each call comes with the oracle of the operating system for its length.
\<close>

datatype call =
    WriteVideo "byte list option" "32 word" "64 word" bool
  | WriteAudio "byte list option" "32 word" "64 word"

fun do_call :: "io \<Rightarrow> world \<Rightarrow> call \<Rightarrow> (error + unit) \<times> world" where
  "do_call io w (WriteVideo data sz p k) = writeVideoFrame io w data sz p k"
| "do_call io w (WriteAudio data sz p) = writeAudioFrame io w data sz p"

fun run_calls :: "world \<Rightarrow> (io \<times> call) list \<Rightarrow> (error + unit) \<times> world" where
  "run_calls w [] = (Inr (), w)"
| "run_calls w ((io, c) # rest) =
     (case do_call io w c of
        (Inl e, w') \<Rightarrow> (Inl e, w')
      | (Inr u, w') \<Rightarrow> run_calls w' rest)"

text \<open>
  An operating system that refuses nothing, one that refuses to open one path, one where
  the flush interval has elapsed and the flush of one path is refused, and a new recorder
  on a disk with no file.
\<close>

definition ok_io :: io where
  "ok_io = \<lparr>open_ok = (\<lambda>p. True), write_ok = (\<lambda>p. True), flush_ok = (\<lambda>p. True),
            elapsed_ms = 0\<rparr>"

definition refuse_open :: "path \<Rightarrow> io" where
  "refuse_open p = \<lparr>open_ok = (\<lambda>q. q \<noteq> p), write_ok = (\<lambda>q. True),
                     flush_ok = (\<lambda>q. True), elapsed_ms = 0\<rparr>"


definition empty_world :: world where
  "empty_world = \<lparr>files = (\<lambda>p. None), rcd = new_recorder\<rparr>"

section \<open>Vocabulary of the specification\<close>

text \<open>
  The definitions of this section follow the words of the specification (as amended
  where a claim is), not the source: they are what the results of the source are
  compared with.
\<close>

definition be32 :: "32 word \<Rightarrow> byte list" where
  "be32 v = writeUint32BE v []"

text \<open>The samples an stts table stands for: each entry repeats its duration.\<close>

definition expand_stts :: "(32 word \<times> 32 word) list \<Rightarrow> 32 word list" where
  "expand_stts es = concat (map (\<lambda>e. replicate (unat (fst e)) (snd e)) es)"

text \<open>The successive PTS deltas of a track, as 32-bit durations.\<close>

definition pts_deltas :: "FrameInfo list \<Rightarrow> 32 word list" where
  "pts_deltas frames =
     map (\<lambda>i. ucast (pts (frames ! (i + 1)) - pts (frames ! i))) [0..<length frames - 1]"

text \<open>
  The duration of the final sample: the previous delta when there is one, for either
  kind of track; else 1024 for audio and \<open>max (timescale / 30) 1\<close> for video.
\<close>

definition final_duration :: "string \<Rightarrow> 32 word \<Rightarrow> FrameInfo list \<Rightarrow> 32 word" where
  "final_duration codec timescale frames =
     (if 2 \<le> length frames then last (pts_deltas frames)
      else if codec = ''mp4a'' then 1024
      else max (timescale div 30) 1)"

text \<open>The entries the stts loop stands for at any moment, and its invariant.\<close>

definition stts_finish ::
  "(32 word \<times> 32 word) list \<times> 32 word \<times> 32 word \<Rightarrow> (32 word \<times> 32 word) list" where
  "stts_finish st =
     (case st of (entries, current_duration, current_count) \<Rightarrow>
        if current_count > 0 then entries @ [(current_count, current_duration)] else entries)"

definition stts_inv :: "(32 word \<times> 32 word) list \<times> 32 word \<times> 32 word \<Rightarrow> bool" where
  "stts_inv st =
     (case st of (es, cd, cc) \<Rightarrow>
        (cc = 0 \<longrightarrow> es = []) \<and> distinct_adj (map snd (stts_finish st))
        \<and> (\<forall>e\<in>set (stts_finish st). fst e \<noteq> 0))"

text \<open>
  Whether a path holds a journal, the records of the journal on disk at a path, the
  bytes that wait in a stream the recorder may hold, the records that wait in its journal
  stream, and its journaled records:
  those its journal stream has put on disk, followed by those still in the buffer of the
  stream, which the next flush appends. The records of a buffer are its objects less
  magic and configuration.
\<close>

definition is_journal :: "fs \<Rightarrow> path \<Rightarrow> bool" where
  "is_journal fs p = (case fs p of Some (Index i) \<Rightarrow> True | _ \<Rightarrow> False)"

definition journal :: "fs \<Rightarrow> path \<Rightarrow> FrameInfo list" where
  "journal fs p = (case fs p of Some (Index i) \<Rightarrow> idx_frames i | _ \<Rightarrow> [])"

fun frames_of :: "idx_item list \<Rightarrow> FrameInfo list" where
  "frames_of [] = []"
| "frames_of (Frame r # items) = r # frames_of items"
| "frames_of (Magic m # items) = frames_of items"
| "frames_of (Config c # items) = frames_of items"



definition journaled :: "world \<Rightarrow> FrameInfo list" where
  "journaled w =
     (case idx_file_m (rcd w) of
        None \<Rightarrow> []
      | Some h \<Rightarrow> journal (files w) (ih_path h) @ frames_of (ih_buf h))"

text \<open>
  The bytes of a file as a stream on it stands: the bytes on disk with the buffer of the
  stream written at its position. The bytes of the MP4 file are those of the MP4 stream.
\<close>

definition stream_bytes :: "fs \<Rightarrow> handle \<Rightarrow> byte list" where
  "stream_bytes fs h =
     (case fs (h_path h) of
        Some (Bytes bs) \<Rightarrow> if h_buf h = [] then bs else pwrite bs (h_pos h) (h_buf h)
      | _ \<Rightarrow> [])"

definition mp4_bytes :: "world \<Rightarrow> byte list" where
  "mp4_bytes w =
     (case mp4_file_m (rcd w) of None \<Rightarrow> [] | Some h \<Rightarrow> stream_bytes (files w) h)"

text \<open>The sample size of a call.\<close>

fun call_size :: "call \<Rightarrow> 32 word" where
  "call_size (WriteVideo data sz p k) = sz"
| "call_size (WriteAudio data sz p) = sz"

text \<open>
  An open session: the recorder is recording, its MP4 stream is open on the output path
  and its journal stream on the path with \<open>.idx\<close> appended, where a journal is.
\<close>

definition session_open :: "world \<Rightarrow> bool" where
  "session_open w =
     (recording_m (rcd w)
      \<and> map_option h_path (mp4_file_m (rcd w)) = Some (mp4_filename_m (rcd w))
      \<and> idx_filename_m (rcd w) = mp4_filename_m (rcd w) @ ''.idx''
      \<and> map_option ih_path (idx_file_m (rcd w)) = Some (mp4_filename_m (rcd w) @ ''.idx'')
      \<and> is_journal (files w) (mp4_filename_m (rcd w) @ ''.idx''))"

text \<open>
  The FrameRecord of a call (section 3 of the specification) for a given offset, and the
  journal of a list of calls: each offset is the sum of the sizes before it, starting
  from \<open>acc\<close>.
\<close>

fun expected_record :: "64 word \<Rightarrow> call \<Rightarrow> FrameInfo" where
  "expected_record acc (WriteVideo data sz p k) =
     \<lparr>offset = acc, size_f = sz, pts = p, dts = p, is_keyframe = (if k then 1 else 0),
      track_id = 0\<rparr>"
| "expected_record acc (WriteAudio data sz p) =
     \<lparr>offset = acc, size_f = sz, pts = p, dts = p, is_keyframe = 1, track_id = 1\<rparr>"

fun expected_journal :: "64 word \<Rightarrow> call list \<Rightarrow> FrameInfo list" where
  "expected_journal acc [] = []"
| "expected_journal acc (c # cs) =
     expected_record acc c # expected_journal (acc + ucast (call_size c)) cs"


section \<open>Properties of the sample tables\<close>

subsection \<open>stco\<close>

lemma writeUint32BE_append: "writeUint32BE v data = data @ be32 v"
  by (simp add: writeUint32BE_def be32_def)

lemma stco_loop_eq:
  "stco_loop frames m data =
     (if \<exists>f\<in>set frames. m + offset f > 0xFFFFFFFF then Inl OffsetOverflow
      else Inr (data @ concat (map (\<lambda>f. be32 (ucast (m + offset f))) frames)))"
  by (induction frames arbitrary: data) (auto simp: Let_def writeUint32BE_append)

text \<open>
  Claim C5. For a track (a non-empty list of records), \<open>buildStco\<close> fails with the
  offset-overflow error exactly when the 64-bit sum \<open>mdat_start + offset\<close> of some
  record is above \<open>0xFFFFFFFF\<close>; otherwise it returns the stco header (size, type,
  version and flags, entry count) followed by one big-endian 32-bit entry per record,
  equal to \<open>mdat_start + offset\<close>, in record order.
\<close>

theorem buildStco_entries:
  assumes "frames \<noteq> []"
  shows "(buildStco frames mdat_start = Inl OffsetOverflow
            \<longleftrightarrow> (\<exists>f\<in>set frames. mdat_start + offset f > 0xFFFFFFFF))
       \<and> ((\<forall>f\<in>set frames. mdat_start + offset f \<le> 0xFFFFFFFF) \<longrightarrow>
            buildStco frames mdat_start =
              Inr (emit [writeAtomHeader ''stco'' (of_nat (8 + 8 + length frames * 4)),
                         writeUint32BE 0,
                         writeUint32BE (of_nat (length frames))] []
                   @ concat (map (\<lambda>f. be32 (ucast (mdat_start + offset f))) frames)))"
proof -
  have "(\<forall>f\<in>set frames. mdat_start + offset f \<le> 0xFFFFFFFF)
          \<longleftrightarrow> \<not> (\<exists>f\<in>set frames. mdat_start + offset f > 0xFFFFFFFF)"
    by (auto simp: not_less)
  then show ?thesis
    using assms by (simp add: buildStco_def stco_loop_eq Let_def)
qed

theorem buildStco_entries_witness:
  "buildStco
     [\<lparr>offset = 0, size_f = 500, pts = 0, dts = 0, is_keyframe = 1, track_id = 0\<rparr>,
      \<lparr>offset = 900, size_f = 500, pts = 3000, dts = 3000, is_keyframe = 0, track_id = 0\<rparr>] 40
     = Inr ([0, 0, 0, 24, 115, 116, 99, 111, 0, 0, 0, 0, 0, 0, 0, 2]
            @ [0, 0, 0, 40] @ [0, 0, 3, 172])
   \<and> buildStco
     [\<lparr>offset = 0xFFFFFFFF, size_f = 500, pts = 0, dts = 0, is_keyframe = 1, track_id = 0\<rparr>] 40
     = Inl OffsetOverflow"
proof -
  let ?a = "[\<lparr>offset = 0, size_f = 500, pts = 0, dts = 0, is_keyframe = 1, track_id = 0\<rparr>,
      \<lparr>offset = 900, size_f = 500, pts = 3000, dts = 3000, is_keyframe = 0, track_id = 0\<rparr>]"
  let ?b = "[\<lparr>offset = 0xFFFFFFFF, size_f = 500, pts = 0, dts = 0, is_keyframe = 1,
              track_id = 0\<rparr>]"
  have ha: "?a \<noteq> []" and hb: "?b \<noteq> []" by simp_all
  have ok: "\<forall>f\<in>set ?a. (40 :: 64 word) + offset f \<le> 0xFFFFFFFF" by simp
  have bad: "\<exists>f\<in>set ?b. (40 :: 64 word) + offset f > 0xFFFFFFFF" by simp
  have hdr: "emit [writeAtomHeader ''stco'' (of_nat (8 + 8 + length ?a * 4)),
                   writeUint32BE 0, writeUint32BE (of_nat (length ?a))] []
             = [0, 0, 0, 24, 115, 116, 99, 111, 0, 0, 0, 0, 0, 0, 0, 2]"
    by code_simp
  have ents: "concat (map (\<lambda>f. be32 (ucast ((40 :: 64 word) + offset f))) ?a)
             = [0, 0, 0, 40] @ [0, 0, 3, 172]"
    by code_simp
  from buildStco_entries [OF ha, of 40] ok hdr ents
  have 1: "buildStco ?a 40 = Inr ([0, 0, 0, 24, 115, 116, 99, 111, 0, 0, 0, 0, 0, 0, 0, 2]
            @ [0, 0, 0, 40] @ [0, 0, 3, 172])"
    by simp
  from buildStco_entries [OF hb, of 40] bad
  have 2: "buildStco ?b 40 = Inl OffsetOverflow" by blast
  from 1 2 show ?thesis by blast
qed

subsection \<open>stts\<close>

lemma unat_succ32: "unat (c :: 32 word) + 1 < 2 ^ 32 \<Longrightarrow> unat (c + 1) = unat c + 1"
  by (simp add: unat_word_ariths)

lemma stts_step_expand:
  assumes "unat (snd (snd st)) + 1 < 2 ^ 32"
  shows "expand_stts (stts_finish (stts_step d st)) = expand_stts (stts_finish st) @ [d]"
proof -
  obtain es cd cc where st: "st = (es, cd, cc)" by (cases st)
  from assms st have u: "unat (cc + 1) = unat cc + 1" by (simp add: unat_succ32)
  then have nz: "cc + 1 \<noteq> 0" by (metis Suc_eq_plus1 nat.simps(3) unat_0)
  show ?thesis
    using u nz
    by (auto simp: st stts_step_def stts_finish_def expand_stts_def word_gt_0
          replicate_append_same)
qed

lemma stts_step_count:
  assumes "unat (snd (snd st)) + 1 < 2 ^ 32"
  shows "unat (snd (snd (stts_step d st))) \<le> unat (snd (snd st)) + 1"
proof -
  obtain es cd cc where st: "st = (es, cd, cc)" by (cases st)
  from assms st have u: "unat (cc + 1) = unat cc + 1" by (simp add: unat_succ32)
  show ?thesis using u by (auto simp: st stts_step_def)
qed

lemma stts_step_inv:
  assumes "unat (snd (snd st)) + 1 < 2 ^ 32" and "stts_inv st"
  shows "stts_inv (stts_step d st)"
proof -
  obtain es cd cc where st: "st = (es, cd, cc)" by (cases st)
  from assms st have u: "unat (cc + 1) = unat cc + 1" by (simp add: unat_succ32)
  then have nz: "cc + 1 \<noteq> 0" by (metis Suc_eq_plus1 nat.simps(3) unat_0)
  show ?thesis
    using assms(2) nz
    by (auto simp: st stts_step_def stts_finish_def stts_inv_def word_gt_0
          distinct_adj_append_iff split: if_splits)
qed

lemma stts_fold:
  assumes "unat (snd (snd st)) + length ds < 2 ^ 32" and "stts_inv st"
  shows "expand_stts (stts_finish (fold stts_step ds st)) = expand_stts (stts_finish st) @ ds
       \<and> stts_inv (fold stts_step ds st)"
  using assms
proof (induction ds arbitrary: st)
  case Nil
  then show ?case by simp
next
  case (Cons d ds)
  have b: "unat (snd (snd st)) + 1 < 2 ^ 32" using Cons.prems(1) by simp
  have c: "unat (snd (snd (stts_step d st))) + length ds < 2 ^ 32"
    using stts_step_count[OF b, of d] Cons.prems(1) by simp
  show ?case
    using Cons.IH[OF c stts_step_inv[OF b Cons.prems(2)]] stts_step_expand[OF b]
    by simp
qed

lemma max_div30:
  "max (timescale div 30) 1 = (if timescale \<ge> 30 then timescale div 30 else (1 :: 32 word))"
proof (cases "timescale \<ge> 30")
  case True
  then have "30 \<le> unat timescale" by (simp add: word_le_nat_alt)
  then have "1 \<le> unat timescale div 30" by simp
  then have "1 \<le> timescale div 30" by (simp add: word_le_nat_alt unat_div)
  with True show ?thesis by (simp add: max_def)
next
  case False
  then have "unat timescale < 30" by (simp add: word_le_nat_alt)
  then have "unat (timescale div 30) = 0" by (simp add: unat_div)
  then have "timescale div 30 = 0" by (simp add: unat_eq_0)
  with False show ?thesis by (simp add: max_def)
qed

lemma stts_durations:
  assumes "frames \<noteq> []"
  shows "map (stts_duration frames
               (stts_last_default frames (stts_default_duration codec timescale)))
           [0..<length frames]
         = pts_deltas frames @ [final_duration codec timescale frames]"
proof -
  obtain n where n: "length frames = Suc n" using assms by (cases frames) auto
  have a: "map (stts_duration frames dd) [0..<n] = pts_deltas frames" for dd
    by (simp add: pts_deltas_def stts_duration_def n)
  have b: "stts_duration frames
             (stts_last_default frames (stts_default_duration codec timescale)) n
           = final_duration codec timescale frames"
  proof (cases n)
    case 0
    then show ?thesis
      by (simp add: stts_duration_def stts_last_default_def final_duration_def n
            stts_default_duration_def max_div30)
  next
    case (Suc k)
    then show ?thesis
      by (simp add: stts_duration_def stts_last_default_def final_duration_def n
            pts_deltas_def last_map)
  qed
  show ?thesis using a b by (simp add: n)
qed

text \<open>
  Claim C3, as amended. For a non-empty track of fewer than \<open>2^32\<close> samples, the stts
  entries built by \<open>buildStts\<close> (with the default duration \<open>buildTrak\<close> hands in)
  stand for the successive PTS deltas followed by the duration of the final sample,
  which is the previous PTS delta when the track has at least two samples (audio and
  video alike), else 1024 for audio and \<open>max (timescale / 30) 1\<close> for video. The
  entries are a run-length encoding: no count is zero and neighbouring entries have
  different durations. The box holds the entry count and the entries, in order.
\<close>

theorem stts_final_and_deltas:
  assumes "frames \<noteq> []" and "length frames < 2 ^ 32"
  shows "expand_stts (stts_entries frames (stts_default_duration codec timescale))
           = pts_deltas frames @ [final_duration codec timescale frames]
       \<and> distinct_adj (map snd (stts_entries frames (stts_default_duration codec timescale)))
       \<and> (\<forall>e\<in>set (stts_entries frames (stts_default_duration codec timescale)). fst e \<noteq> 0)
       \<and> buildStts frames (stts_default_duration codec timescale)
           = Inr (emit
               ([writeAtomHeader ''stts''
                   (of_nat (8 + 8 + length (stts_entries frames
                                             (stts_default_duration codec timescale)) * 8)),
                 writeUint32BE 0,
                 writeUint32BE (of_nat (length (stts_entries frames
                                                 (stts_default_duration codec timescale))))]
                @ concat (map (\<lambda>entry. [writeUint32BE (fst entry), writeUint32BE (snd entry)])
                     (stts_entries frames (stts_default_duration codec timescale)))) [])"
proof -
  let ?dd = "stts_last_default frames (stts_default_duration codec timescale)"
  let ?ds = "map (stts_duration frames ?dd) [0..<length frames]"
  have e: "stts_entries frames (stts_default_duration codec timescale)
             = stts_finish (fold stts_step ?ds ([], 0, 0))"
    by (simp add: stts_entries_def stts_finish_def fold_map comp_def Let_def)
  have i: "stts_inv ([], 0, 0)" by (simp add: stts_inv_def stts_finish_def)
  have l: "unat (snd (snd (([], 0, 0) :: (32 word \<times> 32 word) list \<times> 32 word \<times> 32 word)))
             + length ?ds < 2 ^ 32"
    using assms(2) by simp
  from stts_fold[OF l i]
  have f: "expand_stts (stts_finish (fold stts_step ?ds ([], 0, 0))) = ?ds"
    and g: "stts_inv (fold stts_step ?ds ([], 0, 0))"
    by (simp_all add: stts_finish_def expand_stts_def)
  from g have h: "distinct_adj (map snd (stts_finish (fold stts_step ?ds ([], 0, 0))))"
      "\<forall>e\<in>set (stts_finish (fold stts_step ?ds ([], 0, 0))). fst e \<noteq> 0"
    by (auto simp: stts_inv_def split: prod.splits)
  have c1: "expand_stts (stts_entries frames (stts_default_duration codec timescale))
           = pts_deltas frames @ [final_duration codec timescale frames]"
    using f stts_durations[OF assms(1), of codec timescale] by (simp only: e)
  have c2: "distinct_adj (map snd (stts_entries frames (stts_default_duration codec timescale)))"
    using h(1) by (simp only: e)
  have c3: "\<forall>e\<in>set (stts_entries frames (stts_default_duration codec timescale)). fst e \<noteq> 0"
    using h(2) by (simp only: e)
  have c4: "buildStts frames (stts_default_duration codec timescale)
           = Inr (emit
               ([writeAtomHeader ''stts''
                   (of_nat (8 + 8 + length (stts_entries frames
                                             (stts_default_duration codec timescale)) * 8)),
                 writeUint32BE 0,
                 writeUint32BE (of_nat (length (stts_entries frames
                                                 (stts_default_duration codec timescale))))]
                @ concat (map (\<lambda>entry. [writeUint32BE (fst entry), writeUint32BE (snd entry)])
                     (stts_entries frames (stts_default_duration codec timescale)))) [])"
    using assms(1) by (simp add: buildStts_def Let_def)
  show ?thesis using c1 c2 c3 c4 by blast
qed

text \<open>
  The theorem at scenario A of the specification (three video samples, PTS 0, 1000,
  2000): the table stands for the durations 1000, 1000, 1000.
\<close>

theorem stts_final_and_deltas_witness:
  "expand_stts (stts_entries
     [\<lparr>offset = 0, size_f = 1024, pts = 0, dts = 0, is_keyframe = 1, track_id = 0\<rparr>,
      \<lparr>offset = 1024, size_f = 1024, pts = 1000, dts = 1000, is_keyframe = 0, track_id = 0\<rparr>,
      \<lparr>offset = 2048, size_f = 1024, pts = 2000, dts = 2000, is_keyframe = 0, track_id = 0\<rparr>]
     (stts_default_duration ''avc1'' 30000)) = [1000, 1000, 1000]"
proof -
  let ?fs = "[\<lparr>offset = 0, size_f = 1024, pts = 0, dts = 0, is_keyframe = 1, track_id = 0\<rparr>,
      \<lparr>offset = 1024, size_f = 1024, pts = 1000, dts = 1000, is_keyframe = 0, track_id = 0\<rparr>,
      \<lparr>offset = 2048, size_f = 1024, pts = 2000, dts = 2000, is_keyframe = 0, track_id = 0\<rparr>]"
  have h1: "?fs \<noteq> []" by simp
  have h2: "length ?fs < 2 ^ 32" by simp
  have r: "pts_deltas ?fs @ [final_duration ''avc1'' 30000 ?fs] = [1000, 1000, 1000]"
    by code_simp
  from stts_final_and_deltas [OF h1 h2, of "''avc1''" 30000] r
  show ?thesis by simp
qed

text \<open>
  Claim C3 as stated fails: an audio track of two samples with PTS 0 and 960 gets the
  single entry (2, 960), so its final sample has the duration 960, not 1024.
\<close>

theorem stts_audio_final_counterexample:
  "stts_entries
     [\<lparr>offset = 0, size_f = 200, pts = 0, dts = 0, is_keyframe = 1, track_id = 1\<rparr>,
      \<lparr>offset = 200, size_f = 200, pts = 960, dts = 960, is_keyframe = 1, track_id = 1\<rparr>]
     (stts_default_duration ''mp4a'' 48000) = [(2, 960)]
   \<and> last (expand_stts (stts_entries
     [\<lparr>offset = 0, size_f = 200, pts = 0, dts = 0, is_keyframe = 1, track_id = 1\<rparr>,
      \<lparr>offset = 200, size_f = 200, pts = 960, dts = 960, is_keyframe = 1, track_id = 1\<rparr>]
     (stts_default_duration ''mp4a'' 48000))) \<noteq> 1024"
  by code_simp

section \<open>Properties of the movie header\<close>

text \<open>
  Claim C4 at an audio-only session: one audio sample with PTS 48000 at the timescale
  48000. The audio track lasts 1000 ms, and its tkhd (bytes 152 to 155 of the moov)
  says so, but the mvhd duration (bytes 32 to 35) is 0, after the timescale 1000
  (bytes 28 to 31) and the version and flags 0 (bytes 16 to 19).
\<close>

theorem mvhd_duration_audio_only:
  "(case buildMoov []
          [\<lparr>offset = 0, size_f = 4, pts = 48000, dts = 48000, is_keyframe = 1, track_id = 1\<rparr>]
          30000 48000 48000 2 640 480 None None 40
    of Inl e \<Rightarrow> False
     | Inr moov \<Rightarrow> take 4 (drop 16 moov) = [0, 0, 0, 0]
                  \<and> take 4 (drop 28 moov) = [0, 0, 3, 232]
                  \<and> take 4 (drop 32 moov) = [0, 0, 0, 0]
                  \<and> take 4 (drop 152 moov) = [0, 0, 3, 232])"
  by code_simp

section \<open>Properties of the recorder\<close>

subsection \<open>Streams\<close>

lemma fflush_dom: "dom (fst (snd (fflush io fs h))) = dom fs"
  by (auto simp: fflush_def split: option.splits content.splits)

lemma fclose_dom: "dom (fclose io fs h) = dom fs"
  by (simp add: fclose_def fflush_dom)

lemma release_dom: "dom (release io fs old) = dom fs"
  by (simp add: release_def fclose_dom split: option.splits)

lemma idx_flush_dom: "dom (fst (snd (idx_flush io fs h))) = dom fs"
  by (auto simp: idx_flush_def split: option.splits content.splits)

lemma idx_release_dom: "dom (idx_release io fs old) = dom fs"
  by (simp add: idx_release_def idx_close_def idx_flush_dom split: option.splits)

lemma fflush_is_journal: "is_journal (fst (snd (fflush io fs h))) p = is_journal fs p"
  by (auto simp: fflush_def is_journal_def split: option.splits content.splits)

lemma fflush_journal: "journal (fst (snd (fflush io fs h))) p = journal fs p"
  by (auto simp: fflush_def journal_def split: option.splits content.splits)



lemma idx_frames_fold: "idx_frames (fold put_item items i) = idx_frames i @ frames_of items"
  by (induction items arbitrary: i rule: frames_of.induct) auto

lemma idx_flush_is_journal: "is_journal (fst (snd (idx_flush io fs h))) p = is_journal fs p"
  by (auto simp: idx_flush_def is_journal_def split: option.splits content.splits)

lemma idx_flush_journal:
  "journal (fst (snd (idx_flush io fs h))) p =
     journal fs p @ (if flush_ok io (ih_path h) \<and> ih_path h = p \<and> is_journal fs p
                     then frames_of (ih_buf h) else [])"
  by (auto simp: idx_flush_def journal_def is_journal_def idx_frames_fold
        split: option.splits content.splits)



lemma fflush_stream_bytes:
  assumes "flush_ok io (h_path h)"
  shows "stream_bytes (fst (snd (fflush io fs h))) (snd (snd (fflush io fs h)))
           = stream_bytes fs h"
  using assms
  by (auto simp: fflush_def stream_bytes_def split: option.splits content.splits)

lemma idx_flush_stream_bytes:
  "stream_bytes (fst (snd (idx_flush io fs i))) h = stream_bytes fs h"
  by (auto simp: idx_flush_def stream_bytes_def split: option.splits content.splits)

lemma fclose_flushed: "fclose io fs' (snd (snd (fflush io fs h))) = fs'"
  by (simp add: fclose_def fflush_def)

subsection \<open>hasIncompleteRecording and stop\<close>

text \<open>
  Claim C7. For every path, \<open>hasIncompleteRecording\<close> is true exactly when both
  sidecars exist: the path with \<open>.lock\<close> appended and the path with \<open>.idx\<close>
  appended.
\<close>

theorem hasIncompleteRecording_iff:
  "hasIncompleteRecording fs filename
     \<longleftrightarrow> filename @ ''.lock'' \<in> dom fs \<and> filename @ ''.idx'' \<in> dom fs"
  by (auto simp: hasIncompleteRecording_def fs_exists_def Let_def)

lemma buildAndWriteMoov_rcd: "rcd (snd (buildAndWriteMoov io w)) = rcd w"
  by (auto simp: buildAndWriteMoov_def Let_def split: sum.splits prod.splits)

lemma cleanupFiles_rcd: "rcd (snd (cleanupFiles w)) = rcd w"
  by (simp add: cleanupFiles_def Let_def)

lemma buildAndWriteMoov_rcd': "buildAndWriteMoov io w = (res, w') \<Longrightarrow> rcd w' = rcd w"
  by (metis buildAndWriteMoov_rcd snd_conv)

lemma stop_recording_false:
  assumes "recording_m (rcd w)"
  shows "\<not> recording_m (rcd (snd (stop io w)))"
  using assms
  by (auto simp: stop_def Let_def cleanupFiles_def
        dest!: buildAndWriteMoov_rcd' split: sum.splits prod.splits option.splits)

text \<open>
  Claim C10. From a recording recorder, \<open>stop\<close> leaves the recording flag cleared
  whatever it returns, and on the state it leaves, a second \<open>stop\<close> and every write
  are rejected with \<open>NotRecording\<close> and change nothing: what is left of the session is
  on disk, for \<open>recover\<close>.
\<close>

theorem stop_clears_recording:
  assumes "recording_m (rcd w)"
  shows "\<not> recording_m (rcd (snd (stop io w)))
       \<and> stop io' (snd (stop io w)) = (Inl NotRecording, snd (stop io w))
       \<and> writeVideoFrame io' (snd (stop io w)) data sz p k = (Inl NotRecording, snd (stop io w))
       \<and> writeAudioFrame io' (snd (stop io w)) data sz p = (Inl NotRecording, snd (stop io w))"
  using stop_recording_false[OF assms, of io]
  by (simp add: stop_def writeVideoFrame_def writeAudioFrame_def)

text \<open>
  The theorem at a session whose \<open>stop\<close> fails: the MP4 file cannot be reopened for the moov.
\<close>

theorem stop_clears_recording_witness:
  "fst (stop (refuse_open ''a.mp4'') (snd (start ok_io empty_world ''a.mp4'' default_config)))
     = Inl IoOpen
   \<and> \<not> recording_m (rcd (snd (stop (refuse_open ''a.mp4'')
                                (snd (start ok_io empty_world ''a.mp4'' default_config)))))
   \<and> stop ok_io (snd (stop (refuse_open ''a.mp4'')
                     (snd (start ok_io empty_world ''a.mp4'' default_config))))
       = (Inl NotRecording, snd (stop (refuse_open ''a.mp4'')
                                  (snd (start ok_io empty_world ''a.mp4'' default_config))))"
proof -
  let ?W = "snd (start ok_io empty_world ''a.mp4'' default_config)"
  have h: "recording_m (rcd ?W)" by code_simp
  have e: "fst (stop (refuse_open ''a.mp4'') ?W) = Inl IoOpen" by code_simp
  from stop_clears_recording[OF h, of "refuse_open ''a.mp4''" ok_io] e
  show ?thesis by blast
qed

subsection \<open>start\<close>

lemmas start_defs = start_def createFiles_def fopen_wb_def fwrite_def idx_open_wb_def
  idx_write_def Let_def ftyp_def mdat_header_def split_beta

lemmas dom_defs = release_dom idx_release_dom fflush_dom idx_flush_dom

lemma start_already:
  "recording_m (rcd w) \<Longrightarrow> start io w f cfg = (Inl AlreadyRecording, w)"
  by (simp add: start_def)

lemma start_mp4_refused:
  assumes "\<not> recording_m (rcd w)" "\<not> open_ok io f"
  shows "fst (start io w f cfg) = Inl IoOpen
       \<and> dom (files (snd (start io w f cfg))) = dom (files w)"
  using assms by (simp add: start_defs dom_defs)

lemma start_mp4_write_refused:
  assumes "\<not> recording_m (rcd w)" "open_ok io f" "\<not> write_ok io f"
  shows "fst (start io w f cfg) = Inl IoWrite
       \<and> dom (files (snd (start io w f cfg))) = insert f (dom (files w))"
  using assms by (simp add: start_defs dom_defs)

lemma start_idx_refused:
  assumes "\<not> recording_m (rcd w)" "open_ok io f" "write_ok io f"
    "\<not> open_ok io (f @ ''.idx'')"
  shows "fst (start io w f cfg) = Inl IoOpen
       \<and> dom (files (snd (start io w f cfg))) = insert f (dom (files w))"
  using assms by (simp add: start_defs dom_defs)

lemma start_idx_write_refused:
  assumes "\<not> recording_m (rcd w)" "open_ok io f" "write_ok io f"
    "open_ok io (f @ ''.idx'')" "\<not> write_ok io (f @ ''.idx'')"
  shows "fst (start io w f cfg) = Inl IoWrite
       \<and> dom (files (snd (start io w f cfg)))
           = insert (f @ ''.idx'') (insert f (dom (files w)))"
  using assms by (simp add: start_defs dom_defs)

lemma start_lock_refused:
  assumes "\<not> recording_m (rcd w)" "open_ok io f" "write_ok io f"
    "open_ok io (f @ ''.idx'')" "write_ok io (f @ ''.idx'')"
    "\<not> open_ok io (f @ ''.lock'')"
  shows "fst (start io w f cfg) = Inl IoOpen
       \<and> dom (files (snd (start io w f cfg)))
           = insert (f @ ''.idx'') (insert f (dom (files w)))"
  using assms by (simp add: start_defs dom_defs)

lemma start_ok_dom:
  assumes "\<not> recording_m (rcd w)" "open_ok io f" "write_ok io f"
    "open_ok io (f @ ''.idx'')" "write_ok io (f @ ''.idx'')"
    "open_ok io (f @ ''.lock'')"
  shows "fst (start io w f cfg) = Inr ()
       \<and> dom (files (snd (start io w f cfg)))
           = insert (f @ ''.lock'') (insert (f @ ''.idx'') (insert f (dom (files w))))"
  using assms by (simp add: start_defs dom_defs)


lemma start_cases:
  obtains (already) "recording_m (rcd w)"
  | (mp4_refused) "\<not> recording_m (rcd w)" "\<not> open_ok io f"
  | (mp4_write_refused) "\<not> recording_m (rcd w)" "open_ok io f" "\<not> write_ok io f"
  | (idx_refused) "\<not> recording_m (rcd w)" "open_ok io f" "write_ok io f"
      "\<not> open_ok io (f @ ''.idx'')"
  | (idx_write_refused) "\<not> recording_m (rcd w)" "open_ok io f" "write_ok io f"
      "open_ok io (f @ ''.idx'')" "\<not> write_ok io (f @ ''.idx'')"
  | (lock_refused) "\<not> recording_m (rcd w)" "open_ok io f" "write_ok io f"
      "open_ok io (f @ ''.idx'')" "write_ok io (f @ ''.idx'')" "\<not> open_ok io (f @ ''.lock'')"
  | (ok) "\<not> recording_m (rcd w)" "open_ok io f" "write_ok io f"
      "open_ok io (f @ ''.idx'')" "write_ok io (f @ ''.idx'')" "open_ok io (f @ ''.lock'')"
  by blast

lemma start_keeps_files:
  assumes "p \<in> dom (files w)"
  shows "p \<in> dom (files (snd (start io w f cfg)))"
proof (cases rule: start_cases[where w=w and io=io and f=f])
  case already
  then show ?thesis using assms by (simp add: start_already)
next
  case mp4_refused
  then show ?thesis using assms start_mp4_refused[of w io f cfg] by simp
next
  case mp4_write_refused
  then show ?thesis using assms start_mp4_write_refused[of w io f cfg] by simp
next
  case idx_refused
  then show ?thesis using assms start_idx_refused[of w io f cfg] by simp
next
  case idx_write_refused
  then show ?thesis using assms start_idx_write_refused[of w io f cfg] by simp
next
  case lock_refused
  then show ?thesis using assms start_lock_refused[of w io f cfg] by simp
next
  case ok
  then show ?thesis using assms start_ok_dom[of w io f cfg] by simp
qed

text \<open>
  Claim C8, as amended. \<open>start\<close> never unlinks: every path that holds a file before
  the call holds one after it. When the journal cannot be created, \<open>start\<close> fails and
  the MP4 file it has created still exists; when the lock file cannot be created,
  \<open>start\<close> fails and both the MP4 file and the journal it has created still exist.
\<close>

theorem start_failure_leaves_artifacts:
  assumes "\<not> recording_m (rcd w)"
  shows "(\<forall>p. p \<in> dom (files w) \<longrightarrow> p \<in> dom (files (snd (start io w f cfg))))
       \<and> (open_ok io f \<and> write_ok io f \<and> \<not> open_ok io (f @ ''.idx'') \<longrightarrow>
            fst (start io w f cfg) = Inl IoOpen
            \<and> fs_exists (files (snd (start io w f cfg))) f)
       \<and> (open_ok io f \<and> write_ok io f \<and> open_ok io (f @ ''.idx'')
            \<and> write_ok io (f @ ''.idx'') \<and> \<not> open_ok io (f @ ''.lock'') \<longrightarrow>
            fst (start io w f cfg) = Inl IoOpen
            \<and> fs_exists (files (snd (start io w f cfg))) f
            \<and> fs_exists (files (snd (start io w f cfg))) (f @ ''.idx''))"
proof -
  have e: "fs_exists fs p \<longleftrightarrow> p \<in> dom fs" for fs p
    by (auto simp: fs_exists_def)
  have a: "\<forall>p. p \<in> dom (files w) \<longrightarrow> p \<in> dom (files (snd (start io w f cfg)))"
    using start_keeps_files by blast
  have b: "fst (start io w f cfg) = Inl IoOpen
            \<and> fs_exists (files (snd (start io w f cfg))) f"
    if "open_ok io f" "write_ok io f" "\<not> open_ok io (f @ ''.idx'')"
    using start_idx_refused[OF assms that, of cfg] by (simp add: e)
  have c: "fst (start io w f cfg) = Inl IoOpen
            \<and> fs_exists (files (snd (start io w f cfg))) f
            \<and> fs_exists (files (snd (start io w f cfg))) (f @ ''.idx'')"
    if "open_ok io f" "write_ok io f" "open_ok io (f @ ''.idx'')"
       "write_ok io (f @ ''.idx'')" "\<not> open_ok io (f @ ''.lock'')"
    using start_lock_refused[OF assms that, of cfg] by (simp add: e)
  show ?thesis using a b c by blast
qed

text \<open>
  The theorem where the lock file cannot be created: the MP4 file and the journal stay.
\<close>

theorem start_failure_leaves_artifacts_witness:
  "fst (start (refuse_open ''a.mp4.lock'') empty_world ''a.mp4'' default_config) = Inl IoOpen
   \<and> fs_exists (files (snd (start (refuse_open ''a.mp4.lock'') empty_world ''a.mp4''
                         default_config))) ''a.mp4''
   \<and> fs_exists (files (snd (start (refuse_open ''a.mp4.lock'') empty_world ''a.mp4''
                         default_config))) (''a.mp4'' @ ''.idx'')"
proof -
  have h: "\<not> recording_m (rcd empty_world)"
    by (simp add: empty_world_def new_recorder_def)
  have c: "open_ok (refuse_open ''a.mp4.lock'') ''a.mp4''
         \<and> write_ok (refuse_open ''a.mp4.lock'') ''a.mp4''
         \<and> open_ok (refuse_open ''a.mp4.lock'') (''a.mp4'' @ ''.idx'')
         \<and> write_ok (refuse_open ''a.mp4.lock'') (''a.mp4'' @ ''.idx'')
         \<and> \<not> open_ok (refuse_open ''a.mp4.lock'') (''a.mp4'' @ ''.lock'')"
    by (simp add: refuse_open_def)
  from start_failure_leaves_artifacts[OF h, of "refuse_open ''a.mp4.lock''" "''a.mp4''"
      default_config] c
  show ?thesis by blast
qed

text \<open>
  Claim C8 as stated fails: the journal cannot be created, \<open>start\<close> fails, and the
  MP4 file it had created is still there.
\<close>

theorem start_idx_refused_counterexample:
  "fst (start (refuse_open ''a.mp4.idx'') empty_world ''a.mp4'' default_config) = Inl IoOpen
   \<and> fs_exists (files (snd (start (refuse_open ''a.mp4.idx'') empty_world ''a.mp4''
                         default_config))) ''a.mp4''"
  by code_simp

subsection \<open>The write calls and the journal\<close>



lemma idx_flush_handle:
  "ih_path (snd (snd (idx_flush io fs h))) = ih_path h"
  "frames_of (ih_buf (snd (snd (idx_flush io fs h))))
     = (if flush_ok io (ih_path h) then [] else frames_of (ih_buf h))"
  by (simp_all add: idx_flush_def)

lemma fflush_handle: "h_path (snd (snd (fflush io fs h))) = h_path h"
  by (simp add: fflush_def)


lemma session_openD:
  assumes "session_open w"
  obtains h i where "recording_m (rcd w)" "mp4_file_m (rcd w) = Some h"
    "h_path h = mp4_filename_m (rcd w)"
    "idx_filename_m (rcd w) = mp4_filename_m (rcd w) @ ''.idx''"
    "idx_file_m (rcd w) = Some i" "ih_path i = mp4_filename_m (rcd w) @ ''.idx''"
    "is_journal (files w) (mp4_filename_m (rcd w) @ ''.idx'')"
  using assms by (auto simp: session_open_def)


lemma frames_of_append: "frames_of (xs @ ys) = frames_of xs @ frames_of ys"
  by (induction xs rule: frames_of.induct) auto

lemma fflush_ok: "fst (fflush io fs h) = flush_ok io (h_path h)"
  by (simp add: fflush_def)

lemma idx_flush_ok: "fst (idx_flush io fs h) = flush_ok io (ih_path h)"
  by (simp add: idx_flush_def)


lemma logFrameToIndex_ok:
  assumes "session_open w" and "logFrameToIndex io w frame = (Inr (), w2)"
  shows "session_open w2 \<and> mp4_filename_m (rcd w2) = mp4_filename_m (rcd w)
       \<and> mdat_size_m (rcd w2) = mdat_size_m (rcd w)
       \<and> journaled w2 = journaled w @ [frame] \<and> files w2 = files w
       \<and> mp4_file_m (rcd w2) = mp4_file_m (rcd w)"
proof -
  from assms(1) obtain h i where s: "recording_m (rcd w)" "mp4_file_m (rcd w) = Some h"
    "h_path h = mp4_filename_m (rcd w)"
    "idx_filename_m (rcd w) = mp4_filename_m (rcd w) @ ''.idx''"
    "idx_file_m (rcd w) = Some i" "ih_path i = mp4_filename_m (rcd w) @ ''.idx''"
    "is_journal (files w) (mp4_filename_m (rcd w) @ ''.idx'')"
    by (rule session_openD)
  show ?thesis
    using assms(2) s
    by (auto simp: logFrameToIndex_def idx_write_def session_open_def journaled_def
          frames_of_append split: if_splits)
qed

lemma flushIfNeeded_ok:
  assumes "session_open w" and "flushIfNeeded io w = (Inr (), w3)"
  shows "session_open w3 \<and> mp4_filename_m (rcd w3) = mp4_filename_m (rcd w)
       \<and> mdat_size_m (rcd w3) = mdat_size_m (rcd w)
       \<and> journaled w3 = journaled w \<and> mp4_bytes w3 = mp4_bytes w"
proof -
  from assms(1) obtain h i where s: "recording_m (rcd w)" "mp4_file_m (rcd w) = Some h"
    "h_path h = mp4_filename_m (rcd w)"
    "idx_filename_m (rcd w) = mp4_filename_m (rcd w) @ ''.idx''"
    "idx_file_m (rcd w) = Some i" "ih_path i = mp4_filename_m (rcd w) @ ''.idx''"
    "is_journal (files w) (mp4_filename_m (rcd w) @ ''.idx'')"
    by (rule session_openD)
  show ?thesis
  proof (cases "elapsed_ms io \<ge> ucast (flush_interval_ms (config_m (rcd w)))
         \<or> frames_since_flush_m (rcd w) \<ge> flush_frame_count (config_m (rcd w))")
    case False
    then show ?thesis using assms by (simp add: flushIfNeeded_def)
  next
    case True
    from assms(2) True s have ok: "flush_ok io (h_path h)" "flush_ok io (ih_path i)"
      by (auto simp: flushIfNeeded_def Let_def split_beta fflush_ok idx_flush_ok
            split: if_splits)
    from assms(2) True s ok have w3: "w3 =
        \<lparr>files = fst (snd (idx_flush io (fst (snd (fflush io (files w) h))) i)),
         rcd = (rcd w)\<lparr>mp4_file_m := Some (snd (snd (fflush io (files w) h))),
                       idx_file_m := Some (snd (snd (idx_flush io
                                          (fst (snd (fflush io (files w) h))) i))),
                       frames_since_flush_m := 0\<rparr>\<rparr>"
      by (auto simp: flushIfNeeded_def Let_def split_beta fflush_ok idx_flush_ok fsync_def
            idx_sync_def idx_flush_handle split: if_splits)
    show ?thesis
      using s ok
      by (simp add: w3 session_open_def journaled_def mp4_bytes_def
            idx_flush_is_journal fflush_is_journal idx_flush_journal fflush_journal
            idx_flush_handle fflush_handle idx_flush_stream_bytes fflush_stream_bytes)
  qed
qed

lemma count_frame_ok:
  assumes "session_open w"
  shows "session_open (count_frame w sz)
       \<and> mp4_filename_m (rcd (count_frame w sz)) = mp4_filename_m (rcd w)
       \<and> mdat_size_m (rcd (count_frame w sz)) = mdat_size_m (rcd w) + ucast sz
       \<and> journaled (count_frame w sz) = journaled w
       \<and> mp4_bytes (count_frame w sz) = mp4_bytes w"
  using assms
  by (auto simp: count_frame_def session_open_def journaled_def mp4_bytes_def
        split: option.splits)




lemma expected_journal_length: "length (expected_journal acc cs) = length cs"
  by (induction cs arbitrary: acc) auto







lemma flushIfNeeded_succeeds:
  assumes "session_open w" and "flush_ok io (mp4_filename_m (rcd w))"
    and "flush_ok io (mp4_filename_m (rcd w) @ ''.idx'')"
  shows "fst (flushIfNeeded io w) = Inr ()"
proof -
  from assms(1) obtain h i where s: "recording_m (rcd w)" "mp4_file_m (rcd w) = Some h"
    "h_path h = mp4_filename_m (rcd w)"
    "idx_filename_m (rcd w) = mp4_filename_m (rcd w) @ ''.idx''"
    "idx_file_m (rcd w) = Some i" "ih_path i = mp4_filename_m (rcd w) @ ''.idx''"
    "is_journal (files w) (mp4_filename_m (rcd w) @ ''.idx'')"
    by (rule session_openD)
  show ?thesis
    using s assms(2,3)
    by (simp add: flushIfNeeded_def Let_def split_beta fflush_ok idx_flush_ok fsync_def
          idx_sync_def idx_flush_handle fflush_handle)
qed

lemma write_empty:
  assumes "session_open w"
    and "write_ok io (mp4_filename_m (rcd w) @ ''.idx'')"
    and "flush_ok io (mp4_filename_m (rcd w))"
    and "flush_ok io (mp4_filename_m (rcd w) @ ''.idx'')"
  obtains w2 where "logFrameToIndex io w frame = (Inr (), w2)"
    "fst (flushIfNeeded io (count_frame w2 0)) = Inr ()"
    "mp4_bytes (snd (flushIfNeeded io (count_frame w2 0))) = mp4_bytes w"
    "journaled (snd (flushIfNeeded io (count_frame w2 0))) = journaled w @ [frame]"
proof -
  from assms(1) obtain h i where s: "recording_m (rcd w)" "mp4_file_m (rcd w) = Some h"
    "h_path h = mp4_filename_m (rcd w)"
    "idx_filename_m (rcd w) = mp4_filename_m (rcd w) @ ''.idx''"
    "idx_file_m (rcd w) = Some i" "ih_path i = mp4_filename_m (rcd w) @ ''.idx''"
    "is_journal (files w) (mp4_filename_m (rcd w) @ ''.idx'')"
    by (rule session_openD)
  define w2 where "w2 = snd (logFrameToIndex io w frame)"
  have l: "logFrameToIndex io w frame = (Inr (), w2)"
    unfolding w2_def using s assms(2) by (simp add: logFrameToIndex_def idx_write_def)
  note a = logFrameToIndex_ok[OF assms(1) l]
  have ab: "mp4_bytes w2 = mp4_bytes w"
    using a by (auto simp: mp4_bytes_def split: option.splits)
  note c = count_frame_ok[OF a[THEN conjunct1], of 0]
  have f: "fst (flushIfNeeded io (count_frame w2 0)) = Inr ()"
    using c a assms(3,4) by (intro flushIfNeeded_succeeds) simp_all
  then have "flushIfNeeded io (count_frame w2 0)
               = (Inr (), snd (flushIfNeeded io (count_frame w2 0)))"
    by (metis prod.collapse)
  note d = flushIfNeeded_ok[OF c[THEN conjunct1] this]
  show ?thesis
  proof (rule that[OF l f])
    show "mp4_bytes (snd (flushIfNeeded io (count_frame w2 0))) = mp4_bytes w"
      using ab c d by simp
    show "journaled (snd (flushIfNeeded io (count_frame w2 0))) = journaled w @ [frame]"
      using a c d by simp
  qed
qed

text \<open>
  Claim C9, as amended. In an open session the write calls do not look at the sample they
  are given: with a size of 0, whatever the pointer (null or not), and the journal write
  and the flushes not refused, \<open>writeVideoFrame\<close> and \<open>writeAudioFrame\<close> succeed,
  leave the bytes of the MP4 file as they are and journal a record of size 0.
\<close>

theorem empty_write_accepted:
  assumes "session_open w"
    and "write_ok io (mp4_filename_m (rcd w) @ ''.idx'')"
    and "flush_ok io (mp4_filename_m (rcd w))"
    and "flush_ok io (mp4_filename_m (rcd w) @ ''.idx'')"
  shows "fst (writeVideoFrame io w data 0 p k) = Inr ()
       \<and> mp4_bytes (snd (writeVideoFrame io w data 0 p k)) = mp4_bytes w
       \<and> journaled (snd (writeVideoFrame io w data 0 p k))
           = journaled w
             @ [\<lparr>offset = mdat_size_m (rcd w), size_f = 0, pts = p, dts = p,
                 is_keyframe = (if k then 1 else 0), track_id = 0\<rparr>]
       \<and> fst (writeAudioFrame io w data 0 p) = Inr ()
       \<and> mp4_bytes (snd (writeAudioFrame io w data 0 p)) = mp4_bytes w
       \<and> journaled (snd (writeAudioFrame io w data 0 p))
           = journaled w
             @ [\<lparr>offset = mdat_size_m (rcd w), size_f = 0, pts = p, dts = p,
                 is_keyframe = 1, track_id = 1\<rparr>]"
proof -
  from assms(1) obtain h i where s: "recording_m (rcd w)" "mp4_file_m (rcd w) = Some h"
    by (rule session_openD)
  have m: "writeFrameToMdat io w data 0 = (Inr (), w)"
    using s by (simp add: writeFrameToMdat_def)
  let ?v = "\<lparr>offset = mdat_size_m (rcd w), size_f = 0, pts = p, dts = p,
             is_keyframe = (if k then 1 else 0), track_id = 0\<rparr>"
  let ?a = "\<lparr>offset = mdat_size_m (rcd w), size_f = 0, pts = p, dts = p,
             is_keyframe = 1, track_id = 1\<rparr>"
  obtain wv where lv: "logFrameToIndex io w ?v = (Inr (), wv)"
    and v: "fst (flushIfNeeded io (count_frame wv 0)) = Inr ()"
      "mp4_bytes (snd (flushIfNeeded io (count_frame wv 0))) = mp4_bytes w"
      "journaled (snd (flushIfNeeded io (count_frame wv 0))) = journaled w @ [?v]"
    by (rule write_empty[OF assms])
  obtain wa where la: "logFrameToIndex io w ?a = (Inr (), wa)"
    and a: "fst (flushIfNeeded io (count_frame wa 0)) = Inr ()"
      "mp4_bytes (snd (flushIfNeeded io (count_frame wa 0))) = mp4_bytes w"
      "journaled (snd (flushIfNeeded io (count_frame wa 0))) = journaled w @ [?a]"
    by (rule write_empty[OF assms])
  have ev: "writeVideoFrame io w data 0 p k = flushIfNeeded io (count_frame wv 0)"
    using s by (simp add: writeVideoFrame_def m lv Let_def)
  have ea: "writeAudioFrame io w data 0 p = flushIfNeeded io (count_frame wa 0)"
    using s by (simp add: writeAudioFrame_def m la Let_def)
  show ?thesis unfolding ev ea using v a by simp
qed

text \<open>
  The theorem in a session just started: a video write with a null buffer of size 0.
\<close>

theorem empty_write_accepted_witness:
  "fst (writeVideoFrame ok_io (snd (start ok_io empty_world ''a.mp4'' default_config))
          None 0 3000 False) = Inr ()
   \<and> mp4_bytes (snd (writeVideoFrame ok_io
          (snd (start ok_io empty_world ''a.mp4'' default_config)) None 0 3000 False))
      = mp4_bytes (snd (start ok_io empty_world ''a.mp4'' default_config))"
proof -
  let ?W = "snd (start ok_io empty_world ''a.mp4'' default_config)"
  have h: "session_open ?W" by code_simp
  have n: "mp4_filename_m (rcd ?W) = ''a.mp4''" by code_simp
  have c: "write_ok ok_io (mp4_filename_m (rcd ?W) @ ''.idx'')"
      "flush_ok ok_io (mp4_filename_m (rcd ?W))"
      "flush_ok ok_io (mp4_filename_m (rcd ?W) @ ''.idx'')"
    by (simp_all add: ok_io_def)
  from empty_write_accepted[OF h c, of None 3000 False]
  show ?thesis by blast
qed

text \<open>
  Claim C9 as stated fails: a video write with an empty buffer and an audio write with a
  null buffer, both of size 0, succeed and are journaled.
\<close>

theorem empty_write_counterexample:
  "fst (writeVideoFrame ok_io (snd (start ok_io empty_world ''a.mp4'' default_config))
          (Some []) 0 0 True) = Inr ()
   \<and> journaled (snd (writeVideoFrame ok_io
          (snd (start ok_io empty_world ''a.mp4'' default_config)) (Some []) 0 0 True))
      = [\<lparr>offset = 0, size_f = 0, pts = 0, dts = 0, is_keyframe = 1, track_id = 0\<rparr>]
   \<and> fst (writeAudioFrame ok_io (snd (start ok_io empty_world ''a.mp4'' default_config))
          None 0 0) = Inr ()
   \<and> journaled (snd (writeAudioFrame ok_io
          (snd (start ok_io empty_world ''a.mp4'' default_config)) None 0 0))
      = [\<lparr>offset = 0, size_f = 0, pts = 0, dts = 0, is_keyframe = 1, track_id = 1\<rparr>]"
  by code_simp

subsection \<open>Sessions without frames\<close>




lemma size_bytes_length: "length (size_bytes v) = 4"
  by (simp add: size_bytes_def)

lemma ftyp_length: "length ftyp = 32"
  by (simp add: ftyp_def)

lemma mdat_header_length: "length mdat_header = 8"
  by (simp add: mdat_header_def)









lemma pwrite_end: "pwrite bs (length bs) data = bs @ data"
  by (simp add: pwrite_def)




lemma file_size_bound:
  assumes "\<not> (of_nat n :: 64 word) < 40"
  shows "40 \<le> n"
proof -
  have "40 \<le> unat (of_nat n :: 64 word)"
    using assms by (simp add: word_less_nat_alt not_less)
  moreover have "unat (of_nat n :: 64 word) \<le> n"
    by (simp add: unat_of_nat)
  ultimately show ?thesis by linarith
qed

lemma unat_file_size:
  assumes "n < 2 ^ 32"
  shows "unat (of_nat n :: 64 word) = n"
proof -
  have "n < 2 ^ 64" using assms by (rule less_trans) simp
  then show ?thesis by (simp add: unat_of_nat)
qed

lemma file_size_ok:
  assumes "40 \<le> n" and "n < 2 ^ 32"
  shows "\<not> (of_nat n :: 64 word) < 40" and "\<not> (of_nat n :: 64 word) - 32 > 0xFFFFFFFF"
proof -
  show "\<not> (of_nat n :: 64 word) < 40"
    using assms by (simp add: word_less_nat_alt unat_file_size)
  have "(of_nat n :: 64 word) - 32 = of_nat (n - 32)" using assms(1) by simp
  moreover have "unat (of_nat (n - 32) :: 64 word) = n - 32"
    using assms(2) by (intro unat_file_size) simp
  ultimately show "\<not> (of_nat n :: 64 word) - 32 > 0xFFFFFFFF"
    using assms(2) by (simp add: word_less_nat_alt)
qed

lemma pwrite_patch:
  assumes "40 \<le> length bs" and "length sb = 4"
  shows "pwrite bs 32 sb = take 32 bs @ sb @ drop 36 bs"
  using assms by (simp add: pwrite_def)

lemma recover_patch_ok:
  assumes "open_ok io f" "write_ok io f" "flush_ok io f" "open_ok io (f @ ''.idx'')"
    and "fs (f @ ''.idx'') = Some (Index i)" "readConfig i = Inr cfg"
    and "fs f = Some (Bytes bs)" "40 \<le> length bs" "length bs < 2 ^ 32"
  shows "recover_patch io fs f =
     Inr (cfg, fst (readAllFrames i), snd (readAllFrames i),
          fs(f \<mapsto> Bytes (take 32 bs @ size_bytes (ucast ((of_nat (length bs) :: 64 word) - 32))
                           @ drop 36 bs)),
          \<lparr>h_path = f, h_pos = 36, h_buf = []\<rparr>)"
proof -
  have sb: "size_bytes v \<noteq> []" for v by (simp add: size_bytes_def)
  note z = file_size_ok[OF assms(8,9)]
  show ?thesis
    using assms sb z
    by (simp add: recover_patch_def Let_def IndexFile_open_def fopen_rb_def getFileSize_def
          fseek_set_def fwrite_def fflush_def size_bytes_length
          pwrite_patch[OF assms(8) size_bytes_length] split: prod.splits)
qed

lemma fclose_flushed':
  assumes "snd (fflush io fs0 h1) = (fs1, h)"
  shows "fclose io fs' h = fs'"
proof -
  from assms have "h = snd (snd (fflush io fs0 h1))" by simp
  then show ?thesis by (simp add: fclose_flushed)
qed

lemma recover_patch_handle:
  assumes "recover_patch io fs f = Inr (cfg, v, a, fs1, h)"
  shows "fclose io fs' h = fs'"
  using assms
  by (auto simp: recover_patch_def Let_def split_beta
        split: option.splits sum.splits if_splits dest: fclose_flushed')

lemma recover_moov_no_video:
  assumes "open_ok io f" "write_ok io f" "flush_ok io f" "fs1 f = Some (Bytes bs1)"
    and "buildMoov [] a (video_timescale cfg) (audio_timescale cfg) (audio_sample_rate cfg)
           (audio_channels cfg) (video_width cfg) (video_height cfg) None None 40 = Inr M"
    and "M \<noteq> []"
  shows "recover_moov io fs1 f cfg [] a = (Inr (), fs1(f \<mapsto> Bytes (bs1 @ M)))"
  using assms
  by (simp add: recover_moov_def Let_def extractH264ConfigFromMdat_def fopen_rb_def ptr_def
        writeMoovToFile_def fopen_ab_def fwrite_def fflush_def fclose_def pwrite_end)





subsection \<open>Recovery, run twice\<close>

lemma pwrite_idem:
  assumes "40 \<le> length bs" and "length sb = 4"
  shows "length (pwrite bs 32 sb) = length bs"
    and "pwrite (pwrite bs 32 sb) 32 sb = pwrite bs 32 sb"
  using assms by (simp_all add: pwrite_def)

lemma recover_patch_idem:
  assumes "recover_patch io fs f = Inr (cfg, v, a, fs1, h)"
  shows "recover_patch io fs1 f = Inr (cfg, v, a, fs1, h)"
proof (cases "flush_ok io f")
  case False
  from assms False have "fs1 = fs"
    by (auto simp: recover_patch_def Let_def fopen_rb_def fseek_set_def fwrite_def fflush_def
          split: option.splits sum.splits prod.splits content.splits if_splits)
  then show ?thesis using assms by simp
next
  case True
  from assms obtain i where i: "open_ok io (f @ ''.idx'')" "fs (f @ ''.idx'') = Some (Index i)"
    by (auto simp: recover_patch_def IndexFile_open_def Let_def
          split: option.splits content.splits if_splits)
  from assms i have c: "readConfig i = Inr cfg" and va: "readAllFrames i = (v, a)"
    by (auto simp: recover_patch_def IndexFile_open_def Let_def
          split: option.splits sum.splits prod.splits if_splits)
  from assms i c va obtain bs where bs: "open_ok io f" "fs f = Some (Bytes bs)"
    by (auto simp: recover_patch_def IndexFile_open_def fopen_rb_def Let_def
          split: option.splits content.splits if_splits)
  let ?sb = "size_bytes (ucast ((of_nat (length bs) :: 64 word) - 32))"
  have sb: "?sb \<noteq> []" "length ?sb = 4" by (simp_all add: size_bytes_def)
  from assms i c va bs sb True have
    sz: "\<not> (of_nat (length bs) :: 64 word) < 40"
      "\<not> (of_nat (length bs) :: 64 word) - 32 > 0xFFFFFFFF"
      "write_ok io f" and
    fs1: "fs1 = fs(f \<mapsto> Bytes (pwrite bs 32 ?sb))" and
    h: "h = \<lparr>h_path = f, h_pos = 36, h_buf = []\<rparr>"
    by (auto simp: recover_patch_def IndexFile_open_def fopen_rb_def getFileSize_def
          fseek_set_def fwrite_def fflush_def Let_def split: if_splits)
  have len: "40 \<le> length bs" using sz(1) by (rule file_size_bound)
  note pi = pwrite_idem[OF len sb(2)]
  show ?thesis
    using i c va bs sz sb pi True
    by (simp add: fs1 h recover_patch_def IndexFile_open_def fopen_rb_def getFileSize_def
          fseek_set_def fwrite_def fflush_def Let_def)
qed

text \<open>
  Claim C1, as amended. Let a first run of \<open>recover\<close> be interrupted after step 4
  (the mdat size field is patched) and before any byte of the moov is appended. Then a
  second run, from the disk the first one left, returns what a single uninterrupted run
  returns and leaves the same files, so the same bytes at the output path.
\<close>

theorem recover_resumable_before_moov:
  "recover io (disk_after_patch io fs f) f = recover io fs f"
proof (cases "recover_patch io fs f")
  case (Inl e)
  then show ?thesis by (simp add: disk_after_patch_def)
next
  case (Inr x)
  obtain cfg v a fs1 h where x: "x = (cfg, v, a, fs1, h)" by (cases x)
  have p: "recover_patch io fs f = Inr (cfg, v, a, fs1, h)" using Inr x by simp
  show ?thesis
    by (simp add: disk_after_patch_def recover_def p recover_patch_idem[OF p]
          recover_patch_handle[OF p])
qed

text \<open>
  The theorem at an audio session of one sample, flushed and then interrupted: the first
  run changes the file (the size field) before it is killed, and the second run ends as a
  single one.
\<close>

theorem recover_resumable_before_moov_witness:
  "disk_after_patch ok_io
     (files (snd (run_calls (snd (start ok_io empty_world ''a.mp4'' default_config))
        [(ok_io\<lparr>elapsed_ms := 500\<rparr>, WriteAudio (Some [1, 2]) 2 0)]))) ''a.mp4'' ''a.mp4''
     \<noteq> files (snd (run_calls (snd (start ok_io empty_world ''a.mp4'' default_config))
        [(ok_io\<lparr>elapsed_ms := 500\<rparr>, WriteAudio (Some [1, 2]) 2 0)])) ''a.mp4''
   \<and> recover ok_io
       (disk_after_patch ok_io
          (files (snd (run_calls (snd (start ok_io empty_world ''a.mp4'' default_config))
             [(ok_io\<lparr>elapsed_ms := 500\<rparr>, WriteAudio (Some [1, 2]) 2 0)]))) ''a.mp4'')
       ''a.mp4''
     = recover ok_io
         (files (snd (run_calls (snd (start ok_io empty_world ''a.mp4'' default_config))
            [(ok_io\<lparr>elapsed_ms := 500\<rparr>, WriteAudio (Some [1, 2]) 2 0)]))) ''a.mp4''"
proof -
  have "disk_after_patch ok_io
     (files (snd (run_calls (snd (start ok_io empty_world ''a.mp4'' default_config))
        [(ok_io\<lparr>elapsed_ms := 500\<rparr>, WriteAudio (Some [1, 2]) 2 0)]))) ''a.mp4'' ''a.mp4''
     \<noteq> files (snd (run_calls (snd (start ok_io empty_world ''a.mp4'' default_config))
        [(ok_io\<lparr>elapsed_ms := 500\<rparr>, WriteAudio (Some [1, 2]) 2 0)])) ''a.mp4''"
    by code_simp
  with recover_resumable_before_moov[of ok_io
      "files (snd (run_calls (snd (start ok_io empty_world ''a.mp4'' default_config))
         [(ok_io\<lparr>elapsed_ms := 500\<rparr>, WriteAudio (Some [1, 2]) 2 0)]))" "''a.mp4''"]
  show ?thesis by blast
qed

text \<open>
  Claim C1 as stated fails. An audio session of one sample is flushed and then
  interrupted; a first run of \<open>recover\<close> is killed after step 7, with the moov appended
  and both sidecars still there. The second run takes the size of the file, moov
  included, for the mdat size and appends a second moov: the file it leaves is not the
  file of a single run.
\<close>

theorem recover_after_moov_counterexample:
  "hasIncompleteRecording
     (disk_after_moov ok_io
        (files (snd (run_calls (snd (start ok_io empty_world ''a.mp4'' default_config))
           [(ok_io\<lparr>elapsed_ms := 500\<rparr>, WriteAudio (Some [1, 2]) 2 0)]))) ''a.mp4'')
     ''a.mp4''
   \<and> snd (recover ok_io
        (disk_after_moov ok_io
           (files (snd (run_calls (snd (start ok_io empty_world ''a.mp4'' default_config))
              [(ok_io\<lparr>elapsed_ms := 500\<rparr>, WriteAudio (Some [1, 2]) 2 0)]))) ''a.mp4'')
        ''a.mp4'') ''a.mp4''
     \<noteq> snd (recover ok_io
        (files (snd (run_calls (snd (start ok_io empty_world ''a.mp4'' default_config))
           [(ok_io\<lparr>elapsed_ms := 500\<rparr>, WriteAudio (Some [1, 2]) 2 0)])))
        ''a.mp4'') ''a.mp4''"
proof -
  define FS where "FS = files (snd (run_calls
      (snd (start ok_io empty_world ''a.mp4'' default_config))
      [(ok_io\<lparr>elapsed_ms := 500\<rparr>, WriteAudio (Some [1, 2]) 2 0)]))"
  let ?a1 = "\<lparr>offset = 0, size_f = 2, pts = 0, dts = 0, is_keyframe = 1, track_id = 1\<rparr>"
  let ?i = "\<lparr>idx_magic = Some 0x4D503452, idx_config = Some default_config,
             idx_frames = [?a1]\<rparr>"
  let ?h = "\<lparr>h_path = ''a.mp4'', h_pos = 36, h_buf = []\<rparr>"
  have io: "open_ok ok_io q" "write_ok ok_io q" "flush_ok ok_io q" for q
    by (simp_all add: ok_io_def)
  have f1: "FS ''a.mp4.idx'' = Some (Index ?i)" unfolding FS_def by code_simp
  have "FS ''a.mp4'' = Some (Bytes (ftyp @ mdat_header @ [1, 2]))"
    unfolding FS_def by code_simp
  then obtain bs where f2: "FS ''a.mp4'' = Some (Bytes bs)" and lb: "length bs = 42"
    by (simp add: ftyp_length mdat_header_length)
  have f3: "fs_exists FS ''a.mp4.lock''" unfolding FS_def by code_simp
  have rc: "readConfig ?i = Inr default_config" by (simp add: readConfig_def)
  have rf: "readAllFrames ?i = ([], [?a1])" by (simp add: readAllFrames_def)
  have "map_sum id length (buildMoov [] [?a1] 30000 48000 48000 2 640 480 None None 40)
          = Inr 579"
    by code_simp
  then obtain M where M: "buildMoov [] [?a1] 30000 48000 48000 2 640 480 None None 40 = Inr M"
    and lM: "length M = 579"
    by (cases "buildMoov [] [?a1] 30000 48000 48000 2 640 480 None None 40") auto
  have M': "buildMoov [] [?a1] (video_timescale default_config) (audio_timescale default_config)
           (audio_sample_rate default_config) (audio_channels default_config)
           (video_width default_config) (video_height default_config) None None 40 = Inr M"
    using M by (simp add: default_config_def)
  have nM: "M \<noteq> []" using lM by auto
  define p where "p = take 32 bs @ size_bytes (ucast ((of_nat (length bs) :: 64 word) - 32))
                      @ drop 36 bs"
  have lp: "length p = 42" by (simp add: p_def lb size_bytes_length)
  have p: "recover_patch ok_io FS ''a.mp4''
             = Inr (default_config, [], [?a1], FS(''a.mp4'' \<mapsto> Bytes p), ?h)"
    using recover_patch_ok[of ok_io "''a.mp4''" FS ?i default_config bs] io f1 f2 rc rf lb
    by (simp add: p_def)
  have mv: "recover_moov ok_io (FS(''a.mp4'' \<mapsto> Bytes p)) ''a.mp4'' default_config [] [?a1]
              = (Inr (), (FS(''a.mp4'' \<mapsto> Bytes p))(''a.mp4'' \<mapsto> Bytes (p @ M)))"
    by (rule recover_moov_no_video[OF io(1) io(2) io(3) _ M' nM]) simp
  define D7 where "D7 = FS(''a.mp4'' \<mapsto> Bytes (p @ M))"
  have d7: "disk_after_moov ok_io FS ''a.mp4'' = D7"
    by (simp add: disk_after_moov_def p mv D7_def)
  have r1: "snd (recover ok_io FS ''a.mp4'') ''a.mp4'' = Some (Bytes (p @ M))"
    by (simp add: recover_def p mv fs_remove_def recover_patch_handle[OF p])
  define bs7 where "bs7 = p @ M"
  define p7 where "p7 = take 32 bs7
      @ size_bytes (ucast ((of_nat (length bs7) :: 64 word) - 32)) @ drop 36 bs7"
  have l7: "length bs7 = 621" using lp lM by (simp add: bs7_def)
  have lp7: "length p7 = 621" using l7 by (simp add: p7_def size_bytes_length)
  have g1: "D7 ''a.mp4.idx'' = Some (Index ?i)" using f1 by (simp add: D7_def)
  have g2: "D7 ''a.mp4'' = Some (Bytes bs7)" by (simp add: D7_def bs7_def)
  have p2: "recover_patch ok_io D7 ''a.mp4''
              = Inr (default_config, [], [?a1], D7(''a.mp4'' \<mapsto> Bytes p7), ?h)"
    using recover_patch_ok[of ok_io "''a.mp4''" D7 ?i default_config bs7] io g1 g2 rc rf l7
    by (simp add: p7_def)
  have mv2: "recover_moov ok_io (D7(''a.mp4'' \<mapsto> Bytes p7)) ''a.mp4'' default_config [] [?a1]
              = (Inr (), (D7(''a.mp4'' \<mapsto> Bytes p7))(''a.mp4'' \<mapsto> Bytes (p7 @ M)))"
    by (rule recover_moov_no_video[OF io(1) io(2) io(3) _ M' nM]) simp
  have r2: "snd (recover ok_io D7 ''a.mp4'') ''a.mp4'' = Some (Bytes (p7 @ M))"
    by (simp add: recover_def p2 mv2 fs_remove_def recover_patch_handle[OF p2])
  have "length (p7 @ M) \<noteq> length (p @ M)" using lp7 lp by simp
  then have ne: "p7 @ M \<noteq> p @ M" by metis
  have h: "hasIncompleteRecording D7 ''a.mp4''"
    using f1 f3 by (simp add: hasIncompleteRecording_def fs_exists_def D7_def)
  show ?thesis unfolding FS_def[symmetric] d7 r1 r2 using h ne by simp
qed

end
